theory Spec2Isabelle
  imports Complex_Main "HOL-Library.AList"
begin

section \<open>The map server backend\<close>

text \<open>
  A shallow embedding of the Express server of the repository (the file with the
  routes \<^verbatim>\<open>/api/wmts\<close>, \<^verbatim>\<open>/api/pois\<close>, \<^verbatim>\<open>/api/chat\<close> and
  \<^verbatim>\<open>/api/kommuner-sysselsattning\<close>).

  Conventions of the model:
  \<^item> the data that comes from outside is typed as the services document it (a token
    body with a string and a number of seconds, boundary features whose properties
    are strings, a place list that is an array whose elements are place objects or
    \<^verbatim>\<open>null\<close>);
  \<^item> an object that the server fills itself or writes as a literal is an association
    list of its own keys; reading a key that it does not own finds the member of
    \<^verbatim>\<open>Object.prototype\<close> of that name, when there is one;
  \<^item> one request handler runs from start to end; the module-level variables of the
    server (\<^verbatim>\<open>cachedToken\<close>, \<^verbatim>\<open>tokenExpiry\<close>, \<^verbatim>\<open>poiCache\<close>, \<^verbatim>\<open>scbCache\<close>,
    \<^verbatim>\<open>geoCache\<close>) are fields of a state record that the handler returns updated;
  \<^item> \<^verbatim>\<open>Date.now()\<close> reads the field \<open>clock\<close> (milliseconds); the clock moves only
    while the handler awaits a \<^verbatim>\<open>fetch\<close>, by the delay that comes with the reply;
  \<^item> an upstream service is a function from the number of calls made to it so far
    to the reply of the next call, so that any sequence of replies can be scripted;
    the requests made are appended to a log, whose length counts the calls;
  \<^item> a JavaScript exception is a value of type \<open>exn\<close>; \<^verbatim>\<open>NaN\<close> is \<open>None\<close> in
    a numeric field;
  \<^item> strings are lists of 8-bit characters, read as Latin-1 code units.
\<close>

subsection \<open>Replies of upstream services\<close>

text \<open>
  What a handler can catch: a \<^verbatim>\<open>fetch\<close> that rejects, a body that \<^verbatim>\<open>res.json()\<close>
  cannot read in the expected shape, the \<^verbatim>\<open>TypeError\<close> of reading a property of
  \<^verbatim>\<open>undefined\<close> or \<^verbatim>\<open>null\<close> (with the name of what was read from and of the
  property, as its message prints them), and the four \<^verbatim>\<open>throw new Error(...)\<close> of
  the statistics route, with the values their messages print.
\<close>

datatype exn =
    FetchFailed
  | BodyNotJson
  | CannotRead string string
  | ScbMetadataHttp nat
  | ScbRegionMissing
  | ScbDataHttp nat string
  | GadmHttp nat

datatype 'b reply = NetworkError | Response nat 'b

text \<open>\<^verbatim>\<open>res.ok\<close>: the status is in the range 200 to 299.\<close>

definition ok :: "nat \<Rightarrow> bool" where
  "ok st = (200 \<le> st \<and> st \<le> 299)"

subsection \<open>Values and objects of JavaScript\<close>

text \<open>A member of a JSON object that the code reads: missing (\<^verbatim>\<open>undefined\<close>),
  \<^verbatim>\<open>null\<close>, or a value.\<close>

datatype 'a js = Undefined | Null | Val 'a

text \<open>
  The names of the members of \<^verbatim>\<open>Object.prototype\<close>. Each of them is a function,
  but for \<^verbatim>\<open>__proto__\<close>, which reads as the prototype object itself; all of them
  are truthy, and none has a member \<^verbatim>\<open>key\<close> or \<^verbatim>\<open>value\<close>.
\<close>

definition object_prototype :: "string list" where
  "object_prototype =
     [''constructor'', ''__defineGetter__'', ''__defineSetter__'', ''hasOwnProperty'',
      ''__lookupGetter__'', ''__lookupSetter__'', ''isPrototypeOf'',
      ''propertyIsEnumerable'', ''toString'', ''valueOf'', ''__proto__'',
      ''toLocaleString'']"

text \<open>
  \<^verbatim>\<open>obj[k]\<close> on an object with the own members \<open>obj\<close>: the own member, else the
  inherited one, else \<^verbatim>\<open>undefined\<close>.
\<close>

datatype 'v member = Missing | Own 'v | Inherited string

definition js_get :: "(string \<times> 'v) list \<Rightarrow> string \<Rightarrow> 'v member" where
  "js_get obj k =
     (case map_of obj k of
        Some v \<Rightarrow> Own v
      | None \<Rightarrow> if k \<in> set object_prototype then Inherited k else Missing)"

text \<open>
  \<^verbatim>\<open>obj[k] = v\<close> for a string or a number \<open>v\<close>: the own member is set, in place when
  it is there and at the end otherwise; the key \<^verbatim>\<open>__proto__\<close> is the setter of the
  prototype, which ignores a value that is not an object.
\<close>

definition js_set :: "string \<Rightarrow> 'v \<Rightarrow> (string \<times> 'v) list \<Rightarrow> (string \<times> 'v) list" where
  "js_set k v obj = (if k = ''__proto__'' then obj else AList.update k v obj)"

text \<open>An inherited member used as a key: the text of the function, or of the
  prototype object.\<close>

definition inherited_text :: "string \<Rightarrow> string" where
  "inherited_text k =
     (if k = ''__proto__'' then ''[object Object]''
      else ''function '' @ (if k = ''constructor'' then ''Object'' else k) @
           ''() { [native code] }'')"

subsection \<open>Credential cache: \<^verbatim>\<open>getToken\<close>\<close>

text \<open>
  The JSON body of the token endpoint: the token is a string and the lifetime a
  number of seconds, when they are there and not \<^verbatim>\<open>null\<close>. A body that is not
  JSON makes \<^verbatim>\<open>res.json()\<close> throw: the reply then carries \<open>None\<close> as its body.
\<close>

record token_json =
  access_token :: "string js"
  expires_in :: "int js"

text \<open>
  The body of a tile reply: the \<^verbatim>\<open>content-type\<close> header, when there is one, and the
  bytes of \<^verbatim>\<open>arrayBuffer()\<close>.
\<close>

record tile_body =
  content_type :: "string option"
  payload :: string

text \<open>
  The server's token variables, the clock, and the log of the requests sent to the
  token endpoint (the request body) and to the tile server (URL and
  \<^verbatim>\<open>Authorization\<close> header).
\<close>

record timed =
  clock :: int

record world = timed +
  cachedToken :: "string js"
  tokenExpiry :: "int option"
  tokenLog :: "string list"
  tileLog :: "(string \<times> string) list"

record upstream =
  tokenEndpoint :: "nat \<Rightarrow> nat \<times> token_json option reply"
  tileServer :: "nat \<Rightarrow> nat \<times> tile_body reply"

text \<open>
  \<^verbatim>\<open>cachedToken && Date.now() < tokenExpiry\<close>: \<^verbatim>\<open>null\<close>, \<^verbatim>\<open>undefined\<close> and the
  empty string are falsy, and a comparison with \<^verbatim>\<open>NaN\<close> is false.
\<close>

definition token_fresh :: "world \<Rightarrow> bool" where
  "token_fresh w =
     (case cachedToken w of
        Val t \<Rightarrow> t \<noteq> [] \<and> (case tokenExpiry w of None \<Rightarrow> False | Some e \<Rightarrow> clock w < e)
      | _ \<Rightarrow> False)"

text \<open>
  \<^verbatim>\<open>getToken\<close>. The status of the reply is not read: whatever the status, the
  body is parsed and its fields are stored. In \<^verbatim>\<open>data.expires_in - 300\<close> a
  lifetime that is missing gives \<^verbatim>\<open>NaN\<close>, and \<^verbatim>\<open>null\<close> counts as 0.
\<close>

definition getToken :: "upstream \<Rightarrow> world \<Rightarrow> (exn + string js) \<times> world" where
  "getToken up w =
     (if token_fresh w then (Inr (cachedToken w), w)
      else
        let (d, r) = tokenEndpoint up (length (tokenLog w));
            w1 = w\<lparr>clock := clock w + int d,
                   tokenLog := tokenLog w @ [''grant_type=client_credentials'']\<rparr>
        in case r of
             NetworkError \<Rightarrow> (Inl FetchFailed, w1)
           | Response st None \<Rightarrow> (Inl BodyNotJson, w1)
           | Response st (Some data) \<Rightarrow>
               let w2 = w1\<lparr>cachedToken := access_token data,
                           tokenExpiry :=
                             (case expires_in data of
                                Undefined \<Rightarrow> None
                              | Null \<Rightarrow> Some (clock w1 + (0 - 300) * 1000)
                              | Val l \<Rightarrow> Some (clock w1 + (l - 300) * 1000))\<rparr>
               in (Inr (cachedToken w2), w2))"

subsection \<open>Tile proxy: \<^verbatim>\<open>GET /api/wmts\<close>\<close>







subsection \<open>POI cache and proxy: \<^verbatim>\<open>GET /api/pois\<close>\<close>

text \<open>A JSON response of a route: the value sent, an error body with its status, or
  the \<^verbatim>\<open>catch\<close> branch, which answers 500 with the message of the exception.\<close>

datatype 'a json_response = Ok 'a | Error nat string | Caught exn

definition POI_CATEGORIES :: "(string \<times> string \<times> string) list" where
  "POI_CATEGORIES =
     [(''restauranger'', ''amenity'', ''restaurant''),
      (''kafeer'', ''amenity'', ''cafe''),
      (''parker'', ''leisure'', ''park''),
      (''laddstationer'', ''amenity'', ''charging_station''),
      (''busshallplatser'', ''highway'', ''bus_stop'')]"

definition POI_CACHE_TTL :: int where
  "POI_CACHE_TTL = 5 * 60 * 1000"

text \<open>An element of the Overpass reply, and the POI the route makes of it.\<close>

record element =
  el_id :: int
  el_lat :: real
  el_lon :: real
  el_tags :: "(string \<times> string) list option"

record poi =
  poi_id :: int
  poi_name :: string
  poi_lat :: real
  poi_lon :: real
  poi_tags :: "(string \<times> string) list"

record poi_entry =
  time :: int
  entry_data :: "poi list"

text \<open>
  \<^verbatim>\<open>poiCache\<close> is a \<^verbatim>\<open>Map\<close>: an association list in insertion order, where
  \<^verbatim>\<open>set\<close> on a key that is present replaces its value in place. The keys stay
  distinct, so the length of the list is \<^verbatim>\<open>poiCache.size\<close>.
\<close>

record poi_world = timed +
  poiCache :: "(string \<times> poi_entry) list"
  overpassLog :: "string list"

type_synonym overpass = "nat \<Rightarrow> nat \<times> element list option option reply"

definition to_poi :: "element \<Rightarrow> poi" where
  "to_poi el =
     \<lparr>poi_id = el_id el,
      poi_name = (case el_tags el of
                    None \<Rightarrow> []
                  | Some ts \<Rightarrow> (case map_of ts ''name'' of None \<Rightarrow> [] | Some n \<Rightarrow> n)),
      poi_lat = el_lat el,
      poi_lon = el_lon el,
      poi_tags = (case el_tags el of None \<Rightarrow> [] | Some ts \<Rightarrow> ts)\<rparr>"

text \<open>\<^verbatim>\<open>bbox.split(',')\<close>, and the destructuring of its first four parts (a missing
  part is \<^verbatim>\<open>undefined\<close> and prints as its name).\<close>

fun split_comma :: "string \<Rightarrow> string list" where
  "split_comma [] = [[]]"
| "split_comma (c # cs) =
     (if c = CHR '','' then [] # split_comma cs
      else (case split_comma cs of p # ps \<Rightarrow> (c # p) # ps | [] \<Rightarrow> [[c]]))"

definition part :: "string list \<Rightarrow> nat \<Rightarrow> string" where
  "part ps i = (if i < length ps then ps ! i else ''undefined'')"

definition overpass_query :: "string \<times> string \<Rightarrow> string \<Rightarrow> string" where
  "overpass_query cat bbox =
     (let ps = split_comma bbox
      in ''[out:json][timeout:10];node['' @ [CHR 0x22] @ fst cat @ [CHR 0x22] @ ''='' @
         [CHR 0x22] @ snd cat @ [CHR 0x22] @ ''](''  @
         part ps 0 @ '','' @ part ps 1 @ '','' @ part ps 2 @ '','' @ part ps 3 @
         '');out body;'')"

fun join_comma :: "string list \<Rightarrow> string" where
  "join_comma [] = []"
| "join_comma [x] = x"
| "join_comma (x # y # ys) = x @ '', '' @ join_comma (y # ys)"

text \<open>The sweep after an insertion: only when the map holds more than 200 entries,
  and then it deletes the entries with \<^verbatim>\<open>now - v.time > POI_CACHE_TTL\<close>.\<close>

definition evict :: "int \<Rightarrow> (string \<times> poi_entry) list \<Rightarrow> (string \<times> poi_entry) list" where
  "evict now c =
     (if length c > 200 then filter (\<lambda>(k, v). \<not> (now - time v > POI_CACHE_TTL)) c else c)"

text \<open>The part of the route after a cache miss: the Overpass query, the cache
  insertion and the sweep.\<close>

text \<open>
  \<^verbatim>\<open>POI_CATEGORIES[category]\<close>: the tag filter of a category of the table; for the
  name of a member of \<^verbatim>\<open>Object.prototype\<close> that member, which is truthy and whose
  \<^verbatim>\<open>key\<close> and \<^verbatim>\<open>value\<close> are \<^verbatim>\<open>undefined\<close> and print as that word in the query. A
  category that the request does not have reads the key \<^verbatim>\<open>undefined\<close>.
\<close>

definition poi_category :: "string option \<Rightarrow> (string \<times> string) option" where
  "poi_category category =
     (case js_get POI_CATEGORIES (case category of None \<Rightarrow> ''undefined'' | Some c \<Rightarrow> c) of
        Missing \<Rightarrow> None
      | Own cat \<Rightarrow> Some cat
      | Inherited k \<Rightarrow> Some (''undefined'', ''undefined''))"

definition fetch_pois ::
  "overpass \<Rightarrow> string \<times> string \<Rightarrow> string \<Rightarrow> string \<Rightarrow> poi_world \<Rightarrow> poi list json_response \<times> poi_world" where
  "fetch_pois up cat cacheKey b w =
     (let (d, r) = up (length (overpassLog w));
          w1 = w\<lparr>clock := clock w + int d,
                 overpassLog := overpassLog w @ [overpass_query cat b]\<rparr>
      in case r of
           NetworkError \<Rightarrow> (Caught FetchFailed, w1)
         | Response st body \<Rightarrow>
             if \<not> ok st then (Error 502 ''Overpass API error'', w1)
             else (case body of
                     None \<Rightarrow> (Caught BodyNotJson, w1)
                   | Some elements \<Rightarrow>
                       let pois = map to_poi (case elements of None \<Rightarrow> [] | Some es \<Rightarrow> es);
                           c1 = AList.update cacheKey \<lparr>time = clock w1, entry_data = pois\<rparr>
                                  (poiCache w1)
                       in (Ok pois, w1\<lparr>poiCache := evict (clock w1) c1\<rparr>)))"

definition api_pois ::
  "overpass \<Rightarrow> string option \<Rightarrow> string option \<Rightarrow> poi_world \<Rightarrow> poi list json_response \<times> poi_world" where
  "api_pois up category bbox w =
     (case poi_category category of
        None \<Rightarrow>
          (Error 400 (''Unknown category. Valid: '' @ join_comma (map fst POI_CATEGORIES)), w)
      | Some cat \<Rightarrow>
          (case bbox of
             None \<Rightarrow> (Error 400 ''bbox required (south,west,north,east)'', w)
           | Some b \<Rightarrow>
               if b = [] then (Error 400 ''bbox required (south,west,north,east)'', w)
               else
                 let cacheKey = (case category of None \<Rightarrow> ''undefined'' | Some c \<Rightarrow> c) @
                                '':'' @ b
                 in case map_of (poiCache w) cacheKey of
                      None \<Rightarrow> fetch_pois up cat cacheKey b w
                    | Some cached \<Rightarrow>
                        if clock w - time cached < POI_CACHE_TTL
                        then (Ok (entry_data cached), w)
                        else fetch_pois up cat cacheKey b w))"

subsection \<open>Chat orchestrator: \<^verbatim>\<open>POST /api/chat\<close>\<close>

text \<open>
  The characters that \<^verbatim>\<open>\s\<close> and \<^verbatim>\<open>trim()\<close> treat as white space, among the
  Latin-1 code units: tab, line feed, vertical tab, form feed, carriage return, space
  and the no-break space.
\<close>

definition newline :: char where
  "newline = CHR 0x0A"

definition is_space :: "char \<Rightarrow> bool" where
  "is_space c = (c \<in> set [CHR 0x09, CHR 0x0A, CHR 0x0B, CHR 0x0C, CHR 0x0D, CHR 0x20, CHR 0xA0])"

definition trim :: "string \<Rightarrow> string" where
  "trim s = rev (dropWhile is_space (rev (dropWhile is_space s)))"

definition fence :: string where
  "fence = [CHR 0x60, CHR 0x60, CHR 0x60]"

text \<open>
  The regular expression \<^verbatim>\<open>/```places\s*\n([\s\S]*?)\n```/\<close>, as the backtracking
  matcher runs it.

  \<open>find_close\<close> is the lazy group followed by the closing fence: the shortest
  capture after which a line feed and three backquotes follow; it returns the capture
  and the text after the match.

  \<open>after_tag\<close> is \<^verbatim>\<open>\s*\n\<close> followed by the rest: the greedy star first takes
  a white-space character and, only when what follows cannot match, gives it back
  and reads it as the line feed.

  \<open>places_match\<close> tries the start positions from left to right; it returns the text
  before the match, the capture and the text after the match.
\<close>

fun find_close :: "string \<Rightarrow> (string \<times> string) option" where
  "find_close [] = None"
| "find_close (c # cs) =
     (if take 4 (c # cs) = newline # fence then Some ([], drop 4 (c # cs))
      else map_option (\<lambda>(cap, rest). (c # cap, rest)) (find_close cs))"

fun after_tag :: "string \<Rightarrow> (string \<times> string) option" where
  "after_tag [] = None"
| "after_tag (c # cs) =
     (if is_space c then
        (case after_tag cs of
           Some r \<Rightarrow> Some r
         | None \<Rightarrow> if c = newline then find_close cs else None)
      else None)"

fun places_match :: "string \<Rightarrow> (string \<times> string \<times> string) option" where
  "places_match [] = None"
| "places_match (c # cs) =
     (case (if take 9 (c # cs) = fence @ ''places'' then after_tag (drop 9 (c # cs)) else None) of
        Some (cap, rest) \<Rightarrow> Some ([], cap, rest)
      | None \<Rightarrow> map_option (\<lambda>(pre, cap, rest). (c # pre, cap, rest)) (places_match cs))"

text \<open>A place of the model's reply; the coordinates are numbers of a type \<open>'c\<close>.\<close>

record 'c place =
  name :: string
  lat :: 'c
  lon :: 'c
  description :: string

text \<open>A match of the geocoder: its coordinates are strings.\<close>

record geo_match =
  m_lat :: string
  m_lon :: string

text \<open>
  The chat service answers once: the body is \<open>None\<close> when it is not JSON, and
  otherwise the content of the first choice, when there is one. The geocoder answers
  once for each place, by the position of the place in the list.
\<close>

record chat_upstream =
  openrouter :: "string option option reply"
  nominatim :: "nat \<Rightarrow> geo_match list option reply"

record 'c chat_reply =
  reply_text :: string
  places :: "'c place list"

text \<open>
  The callback of \<^verbatim>\<open>places.map\<close>, on an element of the array: a place object, or
  \<open>None\<close> for \<^verbatim>\<open>null\<close>. For a place, the status of the geocoder's reply is not
  read; a rejected \<^verbatim>\<open>fetch\<close> and an unreadable body are caught, and the place is
  then returned as it is, as when the geocoder has no match. For \<^verbatim>\<open>null\<close>, reading
  \<^verbatim>\<open>place.name\<close> throws before the lookup; the \<^verbatim>\<open>catch\<close> block reads
  \<^verbatim>\<open>place.name\<close> again for its log line and throws in its turn, so that the
  callback rejects. \<open>parseFloat\<close> is the function of that name.
\<close>

definition geocode ::
  "(string \<Rightarrow> 'c) \<Rightarrow> geo_match list option reply \<Rightarrow> 'c place option \<Rightarrow> exn + 'c place" where
  "geocode parseFloat r element =
     (case element of
        None \<Rightarrow> Inl (CannotRead ''null'' ''name'')
      | Some place \<Rightarrow>
          (case r of
             NetworkError \<Rightarrow> Inr place
           | Response st None \<Rightarrow> Inr place
           | Response st (Some nomData) \<Rightarrow>
               (case nomData of
                  [] \<Rightarrow> Inr place
                | m # ms \<Rightarrow>
                    Inr (place\<lparr>lat := parseFloat (m_lat m), lon := parseFloat (m_lon m)\<rparr>))))"

text \<open>
  \<^verbatim>\<open>Promise.all\<close>: the values in the order of the promises, or the rejection when
  one of them rejects (the first in the list here; the callbacks that reject all
  do so with the same error).
\<close>

fun promise_all :: "(exn + 'a) list \<Rightarrow> exn + 'a list" where
  "promise_all [] = Inr []"
| "promise_all (Inl e # rs) = Inl e"
| "promise_all (Inr x # rs) =
     (case promise_all rs of Inl e \<Rightarrow> Inl e | Inr xs \<Rightarrow> Inr (x # xs))"

text \<open>\<^verbatim>\<open>Promise.all(places.map(...))\<close>: the lookups do not share state.\<close>

definition correct_places ::
  "(string \<Rightarrow> 'c) \<Rightarrow> (nat \<Rightarrow> geo_match list option reply) \<Rightarrow> 'c place option list \<Rightarrow>
     exn + 'c place list" where
  "correct_places parseFloat nom ps =
     promise_all (map (\<lambda>(i, element). geocode parseFloat (nom i) element) (zip [0..<length ps] ps))"

text \<open>
  The parsing of the reply: \<open>JSON_parse\<close> is \<^verbatim>\<open>JSON.parse\<close> on the capture,
  \<open>None\<close> when it throws.
\<close>

definition parse_reply ::
  "(string \<Rightarrow> 'c place option list option) \<Rightarrow> string \<Rightarrow> string \<times> 'c place option list" where
  "parse_reply JSON_parse content =
     (case places_match content of
        None \<Rightarrow> (content, [])
      | Some (pre, cap, post) \<Rightarrow>
          (trim (pre @ post), (case JSON_parse cap of None \<Rightarrow> [] | Some ps \<Rightarrow> ps)))"

definition api_chat ::
  "(string \<Rightarrow> 'c) \<Rightarrow> (string \<Rightarrow> 'c place option list option) \<Rightarrow> chat_upstream \<Rightarrow>
     string option \<Rightarrow> string option \<Rightarrow> 'c chat_reply json_response" where
  "api_chat parseFloat JSON_parse up apiKey message =
     (if message = None \<or> message = Some [] then Error 400 ''message required''
      else if apiKey = None \<or> apiKey = Some [] \<or> apiKey = Some ''your-openrouter-api-key-here''
      then Error 500 ''OPENROUTER_API_KEY not configured''
      else
        case openrouter up of
          NetworkError \<Rightarrow> Caught FetchFailed
        | Response st body \<Rightarrow>
            if \<not> ok st then Error 502 ''AI API error''
            else (case body of
                    None \<Rightarrow> Caught BodyNotJson
                  | Some c \<Rightarrow>
                      let content = (case c of None \<Rightarrow> [] | Some s \<Rightarrow> s);
                          (text, places) = parse_reply JSON_parse content
                      in if length places > 0
                         then (case correct_places parseFloat (nominatim up) places of
                                 Inl e \<Rightarrow> Caught e
                               | Inr corrected \<Rightarrow> Ok \<lparr>reply_text = text, places = corrected\<rparr>)
                         else Ok \<lparr>reply_text = text, places = []\<rparr>))"

subsection \<open>Statistics merge: \<^verbatim>\<open>GET /api/kommuner-sysselsattning\<close>\<close>

definition SCB_TTL :: int where
  "SCB_TTL = 24 * 60 * 60 * 1000"

definition GEO_TTL :: int where
  "GEO_TTL = 7 * 24 * 60 * 60 * 1000"

text \<open>A variable of the metadata, and a row of the data reply.\<close>

record variable =
  code :: string
  var_values :: "string list"
  valueTexts :: "string list"

record row =
  key :: "string list"
  row_values :: "string list"

text \<open>
  The two objects of \<^verbatim>\<open>scbCache.data\<close>. An object is an association list in
  insertion order with distinct keys; an assignment to a key that is present
  replaces its value in place. (JavaScript lists keys that are array indices before
  the others; \<open>nameToKod\<close> is only enumerated to fill \<open>nameLower\<close>, where such a
  key can only meet itself, so the order among them does not show.)
\<close>

record scb =
  nameToKod :: "(string \<times> string) list"
  kodToValue :: "(string \<times> real) list"

text \<open>
  A feature of the boundary collection: its properties, its geometry, and its other
  members (the extension of the record). The properties of the source's features
  are strings; those of a merged feature may also be a number, \<^verbatim>\<open>null\<close>, or a
  member of \<^verbatim>\<open>Object.prototype\<close> (the JSON of the response leaves a property out
  whose value is a function, and prints the prototype object as \<^verbatim>\<open>{}\<close>).
\<close>

datatype pval = PStr string | PNum real | PNull | PInherited string

record ('p, 'g) feature =
  properties :: "(string \<times> 'p) list"
  geometry :: 'g

text \<open>
  The server's two caches (\<^verbatim>\<open>scbCache\<close> and \<^verbatim>\<open>geoCache\<close>, each a value and the
  time it was stored), the clock, and the log of the requests: the metadata requests,
  the data requests (with the codes they select) and the boundary requests. The
  value of \<^verbatim>\<open>geoCache\<close> is the JSON object of the boundary source, given by its
  member \<^verbatim>\<open>features\<close>: \<open>Some None\<close> is an object without that member.
\<close>

record 'g stat_world = timed +
  scb_data :: "scb option"
  scb_ts :: int
  geo_data :: "(string, 'g) feature list option option"
  geo_ts :: int
  metaLog :: "string list"
  dataLog :: "(string \<times> string list) list"
  gadmLog :: "string list"

text \<open>
  The replies of the statistics service and of the boundary source. The metadata
  body is the list \<^verbatim>\<open>meta.variables\<close>. The data body has the text that
  \<^verbatim>\<open>dataRes.text()\<close> reads and the rows that \<^verbatim>\<open>dataRes.json()\<close> reads (the member
  \<^verbatim>\<open>data\<close>, when there is one). The boundary body is a JSON object, given by its
  member \<^verbatim>\<open>features\<close>, when it has one. A body that is not JSON is \<open>None\<close>.
\<close>

record data_body =
  body_text :: string
  body_rows :: "row list option option"

record 'g stat_upstream =
  scbMeta :: "nat \<Rightarrow> nat \<times> variable list option reply"
  scbQuery :: "nat \<Rightarrow> nat \<times> data_body reply"
  gadm :: "nat \<Rightarrow> nat \<times> (string, 'g) feature list option option reply"

definition SCB_URL :: string where
  "SCB_URL = ''https://api.scb.se/OV0104/v1/doris/sv/ssd/AM/AM0210/AM0210D/ArRegArbStatus''"

definition GADM_URL :: string where
  "GADM_URL = ''https://geodata.ucdavis.edu/gadm/gadm4.1/json/gadm41_SWE_2.json''"

text \<open>\<^verbatim>\<open>/^\d{4}$/.test(kod)\<close>: exactly four decimal digits.\<close>

definition is_kod :: "string \<Rightarrow> bool" where
  "is_kod kod = (length kod = 4 \<and> list_all (\<lambda>c. c \<in> set ''0123456789'') kod)"

text \<open>\<^verbatim>\<open>xs[i]\<close> used as a key: out of range it is \<^verbatim>\<open>undefined\<close>, whose name is the key.\<close>

definition js_nth :: "string list \<Rightarrow> nat \<Rightarrow> string" where
  "js_nth xs i = (if i < length xs then xs ! i else ''undefined'')"

text \<open>The \<^verbatim>\<open>forEach\<close> over \<^verbatim>\<open>regionVar.values\<close>: the name-to-code object and the
  list \<^verbatim>\<open>municipalityCodes\<close>.\<close>

definition region_maps :: "variable \<Rightarrow> (string \<times> string) list \<times> string list" where
  "region_maps regionVar =
     fold (\<lambda>(i, kod) (n2k, codes).
             if is_kod kod
             then (js_set (js_nth (valueTexts regionVar) i) kod n2k, codes @ [kod])
             else (n2k, codes))
          (zip [0..<length (var_values regionVar)] (var_values regionVar)) ([], [])"

text \<open>The loop over the rows: \<open>parseFloat\<close> returns \<open>None\<close> for \<^verbatim>\<open>NaN\<close>, and a row
  without a value reads \<^verbatim>\<open>undefined\<close>, which parses to \<^verbatim>\<open>NaN\<close>.\<close>

definition kod_values :: "(string \<Rightarrow> real option) \<Rightarrow> row list \<Rightarrow> (string \<times> real) list" where
  "kod_values parseFloat rows =
     fold (\<lambda>row k2v.
             case (case row_values row of [] \<Rightarrow> None | v # vs \<Rightarrow> parseFloat v) of
               None \<Rightarrow> k2v
             | Some value \<Rightarrow> js_set (js_nth (key row) 0) value k2v)
          rows []"

definition refresh_scb ::
  "(string \<Rightarrow> real option) \<Rightarrow> 'g stat_upstream \<Rightarrow> 'g stat_world \<Rightarrow> (exn + scb) \<times> 'g stat_world" where
  "refresh_scb parseFloat up w =
     (let (d, r) = scbMeta up (length (metaLog w));
          w1 = w\<lparr>clock := clock w + int d, metaLog := metaLog w @ [SCB_URL]\<rparr>
      in case r of
           NetworkError \<Rightarrow> (Inl FetchFailed, w1)
         | Response st body \<Rightarrow>
             if \<not> ok st then (Inl (ScbMetadataHttp st), w1)
             else (case body of
                     None \<Rightarrow> (Inl BodyNotJson, w1)
                   | Some variables \<Rightarrow>
                       (case find (\<lambda>v. code v = ''Region'') variables of
                          None \<Rightarrow> (Inl ScbRegionMissing, w1)
                        | Some regionVar \<Rightarrow>
                            let (n2k, municipalityCodes) = region_maps regionVar;
                                (d2, r2) = scbQuery up (length (dataLog w1));
                                w2 = w1\<lparr>clock := clock w1 + int d2,
                                        dataLog := dataLog w1 @ [(SCB_URL, municipalityCodes)]\<rparr>
                            in case r2 of
                                 NetworkError \<Rightarrow> (Inl FetchFailed, w2)
                               | Response st2 body2 \<Rightarrow>
                                   if \<not> ok st2
                                   then (Inl (ScbDataHttp st2 (take 200 (body_text body2))), w2)
                                   else (case body_rows body2 of
                                           None \<Rightarrow> (Inl BodyNotJson, w2)
                                         | Some rows \<Rightarrow>
                                             let fresh =
                                                   \<lparr>nameToKod = n2k,
                                                    kodToValue = kod_values parseFloat
                                                      (case rows of None \<Rightarrow> [] | Some rs \<Rightarrow> rs)\<rparr>
                                             in (Inr fresh,
                                                 w2\<lparr>scb_data := Some fresh, scb_ts := clock w2\<rparr>)))))"

text \<open>Step 1 of the route: the statistics, from the cache or refreshed.\<close>

definition load_scb ::
  "(string \<Rightarrow> real option) \<Rightarrow> 'g stat_upstream \<Rightarrow> 'g stat_world \<Rightarrow> (exn + scb) \<times> 'g stat_world" where
  "load_scb parseFloat up w =
     (case scb_data w of
        None \<Rightarrow> refresh_scb parseFloat up w
      | Some cached \<Rightarrow>
          if clock w - scb_ts w < SCB_TTL then (Inr cached, w)
          else refresh_scb parseFloat up w)"

text \<open>
  The refresh of the boundaries. The parsed body is stored in the cache before its
  member \<^verbatim>\<open>features\<close> is read for the log line: for a body without that member
  the cache is set and reading \<^verbatim>\<open>gadmGeo.features.length\<close> then throws.
\<close>

definition refresh_geo ::
  "'g stat_upstream \<Rightarrow> 'g stat_world \<Rightarrow>
     (exn + (string, 'g) feature list option) \<times> 'g stat_world" where
  "refresh_geo up w =
     (let (d, r) = gadm up (length (gadmLog w));
          w1 = w\<lparr>clock := clock w + int d, gadmLog := gadmLog w @ [GADM_URL]\<rparr>
      in case r of
           NetworkError \<Rightarrow> (Inl FetchFailed, w1)
         | Response st body \<Rightarrow>
             if \<not> ok st then (Inl (GadmHttp st), w1)
             else (case body of
                     None \<Rightarrow> (Inl BodyNotJson, w1)
                   | Some gadmGeo \<Rightarrow>
                       let w2 = w1\<lparr>geo_data := Some gadmGeo, geo_ts := clock w1\<rparr>
                       in (case gadmGeo of
                             None \<Rightarrow> (Inl (CannotRead ''undefined'' ''length''), w2)
                           | Some features \<Rightarrow> (Inr gadmGeo, w2))))"

text \<open>Step 2 of the route: the boundaries, from the cache or refreshed.\<close>

definition load_geo ::
  "'g stat_upstream \<Rightarrow> 'g stat_world \<Rightarrow>
     (exn + (string, 'g) feature list option) \<times> 'g stat_world" where
  "load_geo up w =
     (case geo_data w of
        None \<Rightarrow> refresh_geo up w
      | Some cached \<Rightarrow>
          if clock w - geo_ts w < GEO_TTL then (Inr cached, w)
          else refresh_geo up w)"

text \<open>\<^verbatim>\<open>toLowerCase()\<close> on Latin-1 code units: the letters A to Z, and the
  letters from U+00C0 to U+00DE but for the multiplication sign U+00D7.\<close>

definition lower_char :: "char \<Rightarrow> char" where
  "lower_char c =
     (let n = (of_char c :: nat)
      in if (65 \<le> n \<and> n \<le> 90) \<or> (192 \<le> n \<and> n \<le> 222 \<and> n \<noteq> 215)
         then char_of (n + 32) else c)"

definition toLowerCase :: "string \<Rightarrow> string" where
  "toLowerCase s = map lower_char s"

text \<open>The object \<open>nameLower\<close>: the entries of \<open>nameToKod\<close> in order, each stored
  under its name in lower case, a later entry replacing an earlier one.\<close>

definition nameLower_of :: "(string \<times> string) list \<Rightarrow> (string \<times> string) list" where
  "nameLower_of n2k = fold (\<lambda>(name, kod) m. js_set (toLowerCase name) kod m) n2k []"

text \<open>A lookup under \<^verbatim>\<open>||\<close>: a key that is missing and the empty string are falsy;
  a function and the prototype object are truthy.\<close>

definition truthy :: "string member \<Rightarrow> bool" where
  "truthy v = (case v of Missing \<Rightarrow> False | Own x \<Rightarrow> x \<noteq> [] | Inherited k \<Rightarrow> True)"

text \<open>\<^verbatim>\<open>nameToKod[name2] || nameLower[name2.toLowerCase()] || null\<close>; the result
  \<open>Missing\<close> is \<^verbatim>\<open>null\<close>.\<close>

definition resolve_kod ::
  "(string \<times> string) list \<Rightarrow> (string \<times> string) list \<Rightarrow> string \<Rightarrow> string member" where
  "resolve_kod n2k nameLower name2 =
     (if truthy (js_get n2k name2) then js_get n2k name2
      else if truthy (js_get nameLower (toLowerCase name2))
      then js_get nameLower (toLowerCase name2)
      else Missing)"

text \<open>\<^verbatim>\<open>kod ? (kodToValue[kod] ?? null) : null\<close>; a code that is not a string is
  turned into one to serve as the key.\<close>

definition value_of_kod :: "(string \<times> real) list \<Rightarrow> string member \<Rightarrow> real member" where
  "value_of_kod k2v kod =
     (case kod of
        Missing \<Rightarrow> Missing
      | Own k \<Rightarrow> js_get k2v k
      | Inherited k \<Rightarrow> js_get k2v (inherited_text k))"

text \<open>
  The callback of \<^verbatim>\<open>map\<close> in step 3: the merged feature, and the name when
  \<^verbatim>\<open>!kod\<close> holds. The spread copies the members of the feature and then its
  properties, and \<^verbatim>\<open>kod\<close> and \<^verbatim>\<open>sysselsattning\<close> are assigned after them, in this
  order.
\<close>

definition merge_feature ::
  "scb \<Rightarrow> (string \<times> string) list \<Rightarrow> (string, 'g, 'z) feature_scheme \<Rightarrow>
     (pval, 'g, 'z) feature_scheme \<times> string option" where
  "merge_feature s nameLower f =
     (let name2 = (case map_of (properties f) ''NAME_2'' of None \<Rightarrow> [] | Some n \<Rightarrow> n);
          kod = resolve_kod (nameToKod s) nameLower name2;
          sysselsattning = value_of_kod (kodToValue s) kod
      in (\<lparr>properties =
              AList.update ''sysselsattning''
                (case sysselsattning of
                   Missing \<Rightarrow> PNull | Own x \<Rightarrow> PNum x | Inherited k \<Rightarrow> PInherited k)
                (AList.update ''kod''
                   (case kod of
                      Missing \<Rightarrow> PNull | Own k \<Rightarrow> PStr k | Inherited k \<Rightarrow> PInherited k)
                   (map (\<lambda>(k, v). (k, PStr v)) (properties f))),
            geometry = geometry f,
            \<dots> = feature.more f\<rparr>,
          (if kod = Missing then Some name2 else None)))"

definition is_municipality :: "(string, 'g, 'z) feature_scheme \<Rightarrow> bool" where
  "is_municipality f = (map_of (properties f) ''ENGTYPE_2'' = Some ''Municipality'')"

text \<open>Step 3: the merged features, and the list \<open>unmatched\<close> that the route logs.\<close>

definition merge ::
  "scb \<Rightarrow> (string, 'g, 'z) feature_scheme list \<Rightarrow>
     (pval, 'g, 'z) feature_scheme list \<times> string list" where
  "merge s features =
     (let nameLower = nameLower_of (nameToKod s);
          merged = map (merge_feature s nameLower) (filter is_municipality features)
      in (map fst merged, List.map_filter snd merged))"

datatype 'f collection = FeatureCollection "'f list"

text \<open>The route. A cached boundary object without \<^verbatim>\<open>features\<close> makes
  \<^verbatim>\<open>gadmGeo.features.filter\<close> throw.\<close>

definition api_kommuner_sysselsattning ::
  "(string \<Rightarrow> real option) \<Rightarrow> 'g stat_upstream \<Rightarrow> 'g stat_world \<Rightarrow>
     (pval, 'g) feature collection json_response \<times> 'g stat_world" where
  "api_kommuner_sysselsattning parseFloat up w =
     (case load_scb parseFloat up w of
        (Inl e, w1) \<Rightarrow> (Caught e, w1)
      | (Inr s, w1) \<Rightarrow>
          (case load_geo up w1 of
             (Inl e, w2) \<Rightarrow> (Caught e, w2)
           | (Inr gadmGeo, w2) \<Rightarrow>
               (case gadmGeo of
                  None \<Rightarrow> (Caught (CannotRead ''undefined'' ''filter''), w2)
                | Some features \<Rightarrow> (Ok (FeatureCollection (fst (merge s features))), w2))))"

subsection \<open>The conditions and the relations the properties are stated with\<close>

text \<open>
  The three cache tests of the routes, as predicates on the state:
  \<^verbatim>\<open>cached && Date.now() - cached.time < POI_CACHE_TTL\<close>,
  \<^verbatim>\<open>scbCache.data && Date.now() - scbCache.ts < SCB_TTL\<close> and
  \<^verbatim>\<open>geoCache.data && Date.now() - geoCache.ts < GEO_TTL\<close>.
\<close>

definition poi_fresh :: "poi_world \<Rightarrow> string \<Rightarrow> bool" where
  "poi_fresh w cacheKey =
     (case map_of (poiCache w) cacheKey of
        None \<Rightarrow> False
      | Some cached \<Rightarrow> clock w - time cached < POI_CACHE_TTL)"

definition scb_fresh :: "'g stat_world \<Rightarrow> bool" where
  "scb_fresh w = (scb_data w \<noteq> None \<and> clock w - scb_ts w < SCB_TTL)"

definition geo_fresh :: "'g stat_world \<Rightarrow> bool" where
  "geo_fresh w = (geo_data w \<noteq> None \<and> clock w - geo_ts w < GEO_TTL)"

text \<open>
  Name matching as the specification words it: the exact match is the entry of the
  mapping under the very name; the case-insensitive match is the entry whose name
  is the same up to the case of its letters, and the last one of the mapping when
  several are.
\<close>

definition exact_match :: "(string \<times> string) list \<Rightarrow> string \<Rightarrow> string option" where
  "exact_match n2k name2 = map_option snd (find (\<lambda>(n, k). n = name2) n2k)"

definition case_insensitive_match :: "(string \<times> string) list \<Rightarrow> string \<Rightarrow> string option" where
  "case_insensitive_match n2k name2 =
     map_option snd (find (\<lambda>(n, k). toLowerCase n = toLowerCase name2) (rev n2k))"

text \<open>Every code of the mapping has four digits: so it is for every mapping that
  \<open>refresh_scb\<close> stores (lemma \<open>refresh_scb_codes_ok\<close> below).\<close>

definition codes_ok :: "scb \<Rightarrow> bool" where
  "codes_ok s = list_all (\<lambda>(n, k). is_kod k) (nameToKod s)"

subsection \<open>Example inputs\<close>

text \<open>A server that has just started, at time 1000.\<close>

definition w_start :: world where
  "w_start = \<lparr>clock = 1000, cachedToken = Null, tokenExpiry = Some 0, tokenLog = [], tileLog = []\<rparr>"

text \<open>A token endpoint that hands out \<open>t0\<close> and then \<open>t1\<close>, each for an hour, and a
  tile server that answers 401 to the first request and a tile to the later ones.\<close>

definition up_retry :: upstream where
  "up_retry =
     \<lparr>tokenEndpoint =
        (\<lambda>n. (40, Response 200
                 (Some \<lparr>access_token = Val (if n = 0 then ''t0'' else ''t1''),
                        expires_in = Val 3600\<rparr>))),
      tileServer =
        (\<lambda>n. if n = 0 then (10, Response 401 \<lparr>content_type = None, payload = []\<rparr>)
             else (10, Response 200 \<lparr>content_type = Some ''image/png'', payload = ''PNG''\<rparr>))\<rparr>"

text \<open>A token endpoint that rejects the credentials: first a 401 whose JSON body has
  neither field, then a 500 whose body happens to carry a token.\<close>

definition up_rejecting :: upstream where
  "up_rejecting =
     \<lparr>tokenEndpoint =
        (\<lambda>n. if n = 0
             then (40, Response 401 (Some \<lparr>access_token = Undefined, expires_in = Undefined\<rparr>))
             else (40, Response 500
                     (Some \<lparr>access_token = Val ''stale'', expires_in = Val 3600\<rparr>))),
      tileServer = (\<lambda>n. (10, NetworkError))\<rparr>"

text \<open>A POI cache with 201 entries, for the category \<^verbatim>\<open>kafeer\<close> and 201 bounding
  boxes, all stored at time 0, at time 0; and an Overpass service without elements.\<close>

definition flooded :: "(string \<times> poi_entry) list" where
  "flooded =
     map (\<lambda>i. (''kafeer:'' @ replicate (Suc i) CHR ''1'', \<lparr>time = 0, entry_data = []\<rparr>))
       [0..<201]"

definition w_flooded :: poi_world where
  "w_flooded = \<lparr>clock = 0, poiCache = flooded, overpassLog = []\<rparr>"

definition overpass_empty :: overpass where
  "overpass_empty = (\<lambda>n. (0, Response 200 (Some (Some []))))"

text \<open>A POI cache with one entry stored at time 1000, read at time 2000 and at
  time 301000; and an Overpass service with one element.\<close>

definition w_parks :: "int \<Rightarrow> poi_world" where
  "w_parks now =
     \<lparr>clock = now,
      poiCache = [(''parker:1,2,3,4'', \<lparr>time = 1000, entry_data = []\<rparr>)],
      overpassLog = []\<rparr>"

definition overpass_one :: overpass where
  "overpass_one =
     (\<lambda>n. (25, Response 200
              (Some (Some [\<lparr>el_id = 7, el_lat = 59, el_lon = 18,
                            el_tags = Some [(''name'', ''Humleg'')]\<rparr>]))))"

text \<open>
  Replies of the chat model: one with a places block that is not JSON, one whose
  block is the array of one place, and one whose block is the array of that place
  and \<^verbatim>\<open>null\<close>. \<open>parse_example\<close> is \<^verbatim>\<open>JSON.parse\<close> on the three captures, and
  \<open>float_example\<close> is \<^verbatim>\<open>parseFloat\<close> on the two strings of the geocoder's match.
\<close>

definition quoted :: "string \<Rightarrow> string" where
  "quoted s = CHR 0x22 # s @ [CHR 0x22]"

definition json_place :: string where
  "json_place =
     ''{'' @ quoted ''name'' @ '':'' @ quoted ''A'' @ '','' @ quoted ''lat'' @ '':1,'' @
     quoted ''lon'' @ '':2,'' @ quoted ''description'' @ '':'' @ quoted ''a'' @ ''}''"

definition place_A :: "real place" where
  "place_A = \<lparr>name = ''A'', lat = 1, lon = 2, description = ''a''\<rparr>"


definition reply_one :: string where
  "reply_one =
     ''Se: '' @ fence @ ''places '' @ [newline] @ ''['' @ json_place @ '']'' @ [newline] @ fence"

definition reply_null :: string where
  "reply_null =
     ''Se: '' @ fence @ ''places '' @ [newline] @ ''['' @ json_place @ '',null]'' @ [newline] @
     fence"

definition parse_example :: "string \<Rightarrow> real place option list option" where
  "parse_example s =
     (if s = ''['' @ json_place @ '']'' then Some [Some place_A]
      else if s = ''['' @ json_place @ '',null]'' then Some [Some place_A, None]
      else None)"

definition float_example :: "string \<Rightarrow> real" where
  "float_example s = (if s = ''59.3'' then 593 / 10 else if s = ''18.1'' then 181 / 10 else 0)"

definition chat_up :: "string \<Rightarrow> chat_upstream" where
  "chat_up content =
     \<lparr>openrouter = Response 200 (Some (Some content)),
      nominatim =
        (\<lambda>i. if i = 0 then Response 200 (Some [\<lparr>m_lat = ''59.3'', m_lon = ''18.1''\<rparr>])
             else NetworkError)\<rparr>"

text \<open>Statistics with a name in lower case, a name in two spellings, and one value;
  boundaries with a municipality for each way of matching, one that is unknown and
  already has a property \<^verbatim>\<open>kod\<close>, and a lake. The letter at the end of the first
  name is U+00F6.\<close>

definition scb_example :: scb where
  "scb_example =
     \<lparr>nameToKod = [(''malm'' @ [CHR 0xF6], ''1280''), (''Lund'', ''1281''), (''LUND'', ''9999'')],
      kodToValue = [(''1280'', 157 / 2)]\<rparr>"

definition gadm_example :: "(string, string) feature list" where
  "gadm_example =
     [\<lparr>properties = [(''NAME_2'', ''Malm'' @ [CHR 0xF6]), (''ENGTYPE_2'', ''Municipality'')],
       geometry = ''polygon-a''\<rparr>,
      \<lparr>properties = [(''NAME_2'', ''Siljan''), (''ENGTYPE_2'', ''Water body'')],
       geometry = ''polygon-b''\<rparr>,
      \<lparr>properties = [(''kod'', ''old''), (''NAME_2'', ''Atlantis''),
                     (''ENGTYPE_2'', ''Municipality'')],
       geometry = ''polygon-c''\<rparr>,
      \<lparr>properties = [(''NAME_2'', ''Lund''), (''ENGTYPE_2'', ''Municipality'')],
       geometry = ''polygon-d''\<rparr>]"

text \<open>Boundaries with two municipalities that the statistics do not know: one named
  \<^verbatim>\<open>Atlantis\<close>, and one whose name is that of a member of \<^verbatim>\<open>Object.prototype\<close>.\<close>

definition gadm_inherited :: "(string, string) feature list" where
  "gadm_inherited =
     [\<lparr>properties = [(''NAME_2'', ''Atlantis''), (''ENGTYPE_2'', ''Municipality'')],
       geometry = ''polygon-c''\<rparr>,
      \<lparr>properties = [(''NAME_2'', ''constructor''), (''ENGTYPE_2'', ''Municipality'')],
       geometry = ''polygon-e''\<rparr>]"

text \<open>A statistics server that has just started; the services answering with the
  data above; services that are down; and services of which the boundary source
  answers 200 with a JSON object that has no member \<^verbatim>\<open>features\<close>.\<close>

definition stat_start :: "string stat_world" where
  "stat_start =
     \<lparr>clock = 1000, scb_data = None, scb_ts = 0, geo_data = None, geo_ts = 0,
      metaLog = [], dataLog = [], gadmLog = []\<rparr>"

definition float_option_example :: "string \<Rightarrow> real option" where
  "float_option_example s = (if s = ''78.5'' then Some (157 / 2) else None)"

definition stat_up :: "string stat_upstream" where
  "stat_up =
     \<lparr>scbMeta =
        (\<lambda>n. (30, Response 200
                 (Some [\<lparr>code = ''Region'',
                         var_values = [''00'', ''1280'', ''1281''],
                         valueTexts = [''Riket'', ''malm'' @ [CHR 0xF6], ''Lund'']\<rparr>]))),
      scbQuery =
        (\<lambda>n. (50, Response 200
                 \<lparr>body_text = [],
                  body_rows = Some (Some [\<lparr>key = [''1280''], row_values = [''78.5'']\<rparr>,
                                          \<lparr>key = [''1281''], row_values = [''..'']\<rparr>])\<rparr>)),
      gadm = (\<lambda>n. (200, Response 200 (Some (Some gadm_example))))\<rparr>"

definition stat_down :: "string stat_upstream" where
  "stat_down =
     \<lparr>scbMeta = (\<lambda>n. (0, NetworkError)),
      scbQuery = (\<lambda>n. (0, NetworkError)),
      gadm = (\<lambda>n. (0, NetworkError))\<rparr>"

definition stat_poison :: "string stat_upstream" where
  "stat_poison = stat_up\<lparr>gadm := (\<lambda>n. (200, Response 200 (Some None)))\<rparr>"

section \<open>Properties\<close>

subsection \<open>Credential cache\<close>

lemma getToken_refresh:
  assumes "\<not> token_fresh w"
    and "tokenEndpoint up (length (tokenLog w)) = (d, Response st (Some data))"
  shows "getToken up w =
     (Inr (access_token data),
      w\<lparr>clock := clock w + int d,
        tokenLog := tokenLog w @ [''grant_type=client_credentials''],
        cachedToken := access_token data,
        tokenExpiry := (case expires_in data of
                          Undefined \<Rightarrow> None
                        | Null \<Rightarrow> Some (clock w + int d + (0 - 300) * 1000)
                        | Val l \<Rightarrow> Some (clock w + int d + (l - 300) * 1000))\<rparr>)"
  using assms by (simp add: getToken_def split: js.splits)

lemma getToken_cached:
  "token_fresh w \<Longrightarrow> getToken up w = (Inr (cachedToken w), w)"
  by (simp add: getToken_def)

lemma getToken_tokenLog:
  "tokenLog (snd (getToken up w)) =
     (if token_fresh w then tokenLog w else tokenLog w @ [''grant_type=client_credentials''])"
  by (auto simp: getToken_def Let_def split: prod.splits reply.splits option.splits)



text \<open>
  Claim C1. When the token endpoint answers with a status that is not a success,
  \<open>getToken\<close> should fail with an error that reaches the caller, return no token
  and cache nothing. The code does not read the status. On a server that has just
  started, with an endpoint that answers 401 with a JSON body without fields and
  then 500 with a body that carries a token: the first call returns \<^verbatim>\<open>undefined\<close>
  as the token, without an exception; the second call returns the token of the 500
  reply and stores it; the third call is served from the cache, without an exchange.
\<close>

theorem getToken_ignores_status:
  "fst (getToken up_rejecting w_start) = Inr Undefined
   \<and> fst (getToken up_rejecting (snd (getToken up_rejecting w_start))) = Inr (Val ''stale'')
   \<and> getToken up_rejecting
        (snd (getToken up_rejecting (snd (getToken up_rejecting w_start))))
      = (Inr (Val ''stale''),
         \<lparr>clock = 1080, cachedToken = Val ''stale'', tokenExpiry = Some 3301080,
          tokenLog = [''grant_type=client_credentials'', ''grant_type=client_credentials''],
          tileLog = []\<rparr>)"
  by code_simp

text \<open>
  Claim C6. After a refresh that succeeds (the endpoint returns a token, which is
  not empty, and a lifetime in seconds), the cache holds the token and
  \<open>tokenExpiry = now + (lifetime - 300) * 1000\<close>, where \<open>now\<close> is the clock when
  the reply has been read. From any later state with this cache (no 401 of the
  tile server has invalidated it since), a call before
  \<open>tokenExpiry\<close> returns the cached token and leaves the state as it is (no
  exchange); a call at or after \<open>tokenExpiry\<close> makes exactly one exchange.
\<close>

theorem getToken_expiry:
  assumes "\<not> token_fresh w"
    and "tokenEndpoint up (length (tokenLog w)) =
           (d, Response st (Some \<lparr>access_token = Val t, expires_in = Val lifetime\<rparr>))"
    and "t \<noteq> []"
    and "getToken up w = (r, w1)"
  shows "r = Inr (Val t) \<and> cachedToken w1 = Val t
       \<and> tokenExpiry w1 = Some (clock w1 + (lifetime - 300) * 1000)
       \<and> (\<forall>up' w2. cachedToken w2 = cachedToken w1 \<and> tokenExpiry w2 = tokenExpiry w1 \<longrightarrow>
            (if clock w2 < clock w1 + (lifetime - 300) * 1000
             then getToken up' w2 = (Inr (Val t), w2)
             else tokenLog (snd (getToken up' w2))
                    = tokenLog w2 @ [''grant_type=client_credentials'']))"
proof -
  have w1: "w1 = w\<lparr>clock := clock w + int d,
        tokenLog := tokenLog w @ [''grant_type=client_credentials''],
        cachedToken := Val t,
        tokenExpiry := Some (clock w + int d + (lifetime - 300) * 1000)\<rparr>"
    and r: "r = Inr (Val t)"
    using getToken_refresh[OF assms(1,2)] assms(4) by simp_all
  have "token_fresh w2 \<longleftrightarrow> clock w2 < clock w1 + (lifetime - 300) * 1000"
    if "cachedToken w2 = cachedToken w1" "tokenExpiry w2 = tokenExpiry w1" for w2
    using that assms(3) by (simp add: token_fresh_def w1)
  then show ?thesis
    using r by (auto simp: w1 getToken_cached getToken_tokenLog)
qed

theorem getToken_expiry_witness:
  "getToken up_retry w_start = (Inr (Val ''t0''), snd (getToken up_retry w_start))
   \<and> tokenExpiry (snd (getToken up_retry w_start)) = Some 3301040
   \<and> getToken up_rejecting (snd (getToken up_retry w_start)\<lparr>clock := 3301039\<rparr>)
       = (Inr (Val ''t0''), snd (getToken up_retry w_start)\<lparr>clock := 3301039\<rparr>)
   \<and> tokenLog (snd (getToken up_retry (snd (getToken up_retry w_start)\<lparr>clock := 3301040\<rparr>)))
       = [''grant_type=client_credentials'', ''grant_type=client_credentials'']"
proof -
  let ?w1 = "snd (getToken up_retry w_start)"
  have h1: "\<not> token_fresh w_start" by code_simp
  have h2: "tokenEndpoint up_retry (length (tokenLog w_start)) =
      (40, Response 200 (Some \<lparr>access_token = Val ''t0'', expires_in = Val 3600\<rparr>))"
    by code_simp
  have h3: "''t0'' \<noteq> []" by simp
  have h4: "getToken up_retry w_start = (Inr (Val ''t0''), ?w1)" by code_simp
  have c: "clock ?w1 = 1040" "tokenLog ?w1 = [''grant_type=client_credentials'']" by code_simp+
  note t = getToken_expiry[OF h1 h2 h3 h4]
  from t have e: "tokenExpiry ?w1 = Some (clock ?w1 + (3600 - 300) * 1000)" by blast
  from t have a: "\<And>up' w2. cachedToken w2 = cachedToken ?w1 \<and> tokenExpiry w2 = tokenExpiry ?w1 \<longrightarrow>
            (if clock w2 < clock ?w1 + (3600 - 300) * 1000
             then getToken up' w2 = (Inr (Val ''t0''), w2)
             else tokenLog (snd (getToken up' w2))
                    = tokenLog w2 @ [''grant_type=client_credentials''])" by blast
  from a[of "?w1\<lparr>clock := 3301039\<rparr>" up_rejecting]
  have before: "getToken up_rejecting (?w1\<lparr>clock := 3301039\<rparr>) = (Inr (Val ''t0''), ?w1\<lparr>clock := 3301039\<rparr>)"
    by (simp add: c)
  from a[of "?w1\<lparr>clock := 3301040\<rparr>" up_retry]
  have after: "tokenLog (snd (getToken up_retry (?w1\<lparr>clock := 3301040\<rparr>)))
       = [''grant_type=client_credentials'', ''grant_type=client_credentials'']"
    by (simp add: c)
  show ?thesis using h4 e before after by (simp add: c)
qed

subsection \<open>Tile proxy\<close>



subsection \<open>POI cache\<close>

lemma fetch_pois_Ok:
  assumes "fetch_pois up cat cacheKey b w = (Ok ps, w')"
  shows "poiCache w' =
           evict (clock w') (AList.update cacheKey \<lparr>time = clock w', entry_data = ps\<rparr> (poiCache w))"
  using assms
  by (auto simp: fetch_pois_def Let_def split: prod.splits reply.splits option.splits if_splits)

text \<open>The keys of the cache stay distinct, so that the length of the list is the
  size of the \<^verbatim>\<open>Map\<close>.\<close>

lemma api_pois_distinct:
  assumes "distinct (map fst (poiCache w))"
  shows "distinct (map fst (poiCache (snd (api_pois up category bbox w))))"
proof -
  have e: "distinct (map fst (evict now c))" if "distinct (map fst c)" for now c
    using that by (simp add: evict_def distinct_map_filter)
  have "distinct (map fst (poiCache (snd (fetch_pois up cat cacheKey b w))))" for cat cacheKey b
    using assms
    by (auto simp: fetch_pois_def Let_def e AList.distinct_update
        split: prod.splits reply.splits option.splits)
  then show ?thesis
    using assms by (auto simp: api_pois_def Let_def split: option.splits)
qed

lemma evict_keeps:
  "(k, v) \<in> set c \<Longrightarrow> now - time v \<le> POI_CACHE_TTL \<Longrightarrow> (k, v) \<in> set (evict now c)"
  by (auto simp: evict_def)

lemma evict_none_stale:
  "\<forall>(k, v) \<in> set c. now - time v \<le> POI_CACHE_TTL \<Longrightarrow> evict now c = c"
  unfolding evict_def by (auto intro!: filter_True)

lemma update_absent:
  "k \<notin> fst ` set al \<Longrightarrow> AList.update k v al = al @ [(k, v)]"
  by (induct al) auto

lemma flooded_keys: "''parker:1,2,3,4'' \<notin> fst ` set flooded"
  by (auto simp: flooded_def)

lemma flooded_times: "\<forall>(k, v) \<in> set flooded. time v = 0"
  by (auto simp: flooded_def)

lemma fetch_flooded:
  "fetch_pois overpass_empty (''leisure'', ''park'') ''parker:1,2,3,4'' ''1,2,3,4'' w_flooded
     = (Ok [], w_flooded\<lparr>overpassLog := [overpass_query (''leisure'', ''park'') ''1,2,3,4''],
            poiCache := flooded @ [(''parker:1,2,3,4'', \<lparr>time = 0, entry_data = []\<rparr>)]\<rparr>)"
proof -
  have u: "AList.update ''parker:1,2,3,4'' \<lparr>time = 0, entry_data = []\<rparr> flooded
       = flooded @ [(''parker:1,2,3,4'', \<lparr>time = 0, entry_data = []\<rparr>)]" (is "?u = ?c")
    using flooded_keys by (rule update_absent)
  have "\<forall>(k, v) \<in> set ?c. 0 - time v \<le> POI_CACHE_TTL"
    using flooded_times by (auto simp: POI_CACHE_TTL_def)
  then have "evict 0 ?c = ?c" by (rule evict_none_stale)
  then show ?thesis
    by (simp add: fetch_pois_def overpass_empty_def w_flooded_def ok_def u)
qed

text \<open>
  Claim C8. After an insertion into the POI cache (a miss whose Overpass query
  succeeded, so that the entry \<open>cacheKey\<close> was set, giving the map \<open>c1\<close>): when \<open>c1\<close>
  has at most 200 entries nothing is removed; when it has more, exactly the entries
  whose age is greater than the TTL are removed; in both cases every entry whose age
  is at most the TTL stays, so that with no stale entry the map stays as it is
  whatever its size. And there is a run after which the cache holds more than 200
  entries, all of them younger than the TTL.
\<close>

theorem poi_sweep:
  "(fetch_pois up cat cacheKey b w = (Ok ps, w') \<longrightarrow>
      (let c1 = AList.update cacheKey \<lparr>time = clock w', entry_data = ps\<rparr> (poiCache w)
       in (length c1 \<le> 200 \<longrightarrow> poiCache w' = c1)
        \<and> (200 < length c1 \<longrightarrow>
             poiCache w' = filter (\<lambda>(k, v). \<not> POI_CACHE_TTL < clock w' - time v) c1)
        \<and> (\<forall>(k, v) \<in> set c1. clock w' - time v \<le> POI_CACHE_TTL \<longrightarrow> (k, v) \<in> set (poiCache w'))
        \<and> ((\<forall>(k, v) \<in> set c1. clock w' - time v \<le> POI_CACHE_TTL) \<longrightarrow> poiCache w' = c1)))
   \<and> (\<exists>up cat cacheKey b w ps w'.
         fetch_pois up cat cacheKey b w = (Ok ps, w') \<and> 200 < length (poiCache w')
         \<and> (\<forall>(k, v) \<in> set (poiCache w'). clock w' - time v < POI_CACHE_TTL))"
proof (intro conjI impI)
  assume a: "fetch_pois up cat cacheKey b w = (Ok ps, w')"
  show "let c1 = AList.update cacheKey \<lparr>time = clock w', entry_data = ps\<rparr> (poiCache w)
       in (length c1 \<le> 200 \<longrightarrow> poiCache w' = c1)
        \<and> (200 < length c1 \<longrightarrow>
             poiCache w' = filter (\<lambda>(k, v). \<not> POI_CACHE_TTL < clock w' - time v) c1)
        \<and> (\<forall>(k, v) \<in> set c1. clock w' - time v \<le> POI_CACHE_TTL \<longrightarrow> (k, v) \<in> set (poiCache w'))
        \<and> ((\<forall>(k, v) \<in> set c1. clock w' - time v \<le> POI_CACHE_TTL) \<longrightarrow> poiCache w' = c1)"
    unfolding Let_def fetch_pois_Ok[OF a]
    using evict_none_stale evict_keeps by (auto simp: evict_def)
next
  let ?c = "flooded @ [(''parker:1,2,3,4'', \<lparr>time = 0, entry_data = []\<rparr>)]"
  have "200 < length ?c"
    by (simp add: flooded_def)
  moreover have "\<forall>(k, v) \<in> set ?c. 0 - time v < POI_CACHE_TTL"
    using flooded_times by (auto simp: POI_CACHE_TTL_def)
  ultimately show "\<exists>up cat cacheKey b w ps w'.
         fetch_pois up cat cacheKey b w = (Ok ps, w') \<and> 200 < length (poiCache w')
         \<and> (\<forall>(k, v) \<in> set (poiCache w'). clock w' - time v < POI_CACHE_TTL)"
    using fetch_flooded
    by (intro exI[of _ overpass_empty] exI[of _ "(''leisure'', ''park'')"]
          exI[of _ "''parker:1,2,3,4''"] exI[of _ "''1,2,3,4''"] exI[of _ w_flooded]
          exI[of _ "[]"]
          exI[of _ "w_flooded\<lparr>overpassLog := [overpass_query (''leisure'', ''park'') ''1,2,3,4''],
            poiCache := ?c\<rparr>"])
       (simp add: w_flooded_def)
qed

theorem poi_sweep_witness:
  "fetch_pois overpass_empty (''leisure'', ''park'') ''parker:1,2,3,4'' ''1,2,3,4'' w_flooded
     = (Ok [], w_flooded\<lparr>overpassLog := [overpass_query (''leisure'', ''park'') ''1,2,3,4''],
            poiCache := flooded @ [(''parker:1,2,3,4'', \<lparr>time = 0, entry_data = []\<rparr>)]\<rparr>)
   \<and> 200 < length (AList.update ''parker:1,2,3,4'' \<lparr>time = 0, entry_data = []\<rparr> flooded)
   \<and> flooded @ [(''parker:1,2,3,4'', \<lparr>time = 0, entry_data = []\<rparr>)]
      = filter (\<lambda>(k, v). \<not> POI_CACHE_TTL < 0 - time v)
          (AList.update ''parker:1,2,3,4'' \<lparr>time = 0, entry_data = []\<rparr> flooded)"
proof -
  define W where "W = w_flooded\<lparr>overpassLog := [overpass_query (''leisure'', ''park'') ''1,2,3,4''],
            poiCache := flooded @ [(''parker:1,2,3,4'', \<lparr>time = 0, entry_data = []\<rparr>)]\<rparr>"
  define c1 where "c1 = AList.update ''parker:1,2,3,4'' \<lparr>time = clock W, entry_data = []\<rparr> (poiCache w_flooded)"
  have h: "fetch_pois overpass_empty (''leisure'', ''park'') ''parker:1,2,3,4'' ''1,2,3,4'' w_flooded
     = (Ok [], W)"
    unfolding W_def by (rule fetch_flooded)
  have c1: "c1 = AList.update ''parker:1,2,3,4'' \<lparr>time = 0, entry_data = []\<rparr> flooded"
    by (simp add: c1_def W_def w_flooded_def)
  have "c1 = flooded @ [(''parker:1,2,3,4'', \<lparr>time = 0, entry_data = []\<rparr>)]"
    unfolding c1 using flooded_keys by (rule update_absent)
  then have len: "200 < length c1"
    by (simp add: flooded_def)
  have "fetch_pois overpass_empty (''leisure'', ''park'') ''parker:1,2,3,4'' ''1,2,3,4'' w_flooded
     = (Ok [], W) \<longrightarrow>
     (200 < length c1 \<longrightarrow>
        poiCache W = filter (\<lambda>(k, v). \<not> POI_CACHE_TTL < clock W - time v) c1)"
    using poi_sweep[of overpass_empty "(''leisure'', ''park'')" "''parker:1,2,3,4''" "''1,2,3,4''"
      w_flooded "[]" W]
    unfolding Let_def c1_def by blast
  with h len have "poiCache W = filter (\<lambda>(k, v). \<not> POI_CACHE_TTL < clock W - time v) c1"
    by blast
  then have "flooded @ [(''parker:1,2,3,4'', \<lparr>time = 0, entry_data = []\<rparr>)]
      = filter (\<lambda>(k, v). \<not> POI_CACHE_TTL < 0 - time v) c1"
    by (simp add: W_def w_flooded_def)
  with h len show ?thesis
    unfolding c1 W_def by blast
qed

subsection \<open>Cache reads\<close>

lemma refresh_scb_result:
  assumes "refresh_scb pf up w = (r, w')"
  shows "metaLog w' = metaLog w @ [SCB_URL]
       \<and> geo_data w' = geo_data w \<and> geo_ts w' = geo_ts w \<and> gadmLog w' = gadmLog w
       \<and> (\<forall>s. r = Inr s \<longrightarrow> scb_data w' = Some s \<and> scb_ts w' = clock w')"
  using assms
  by (auto simp: refresh_scb_def Let_def
      split: prod.splits reply.splits option.splits if_splits)

lemma refresh_scb_success:
  assumes "scbMeta up (length (metaLog w)) = (d, Response st (Some vars))" and "ok st"
    and "find (\<lambda>v. code v = ''Region'') vars = Some regionVar"
    and "scbQuery up (length (dataLog w)) = (d2, Response st2 body2)" and "ok st2"
    and "body_rows body2 = Some rows"
    and "refresh_scb pf up w = (r, w')"
  shows "r = Inr \<lparr>nameToKod = fst (region_maps regionVar),
                  kodToValue = kod_values pf (case rows of None \<Rightarrow> [] | Some rs \<Rightarrow> rs)\<rparr>
       \<and> clock w' = clock w + int d + int d2"
  using assms
  by (auto simp: refresh_scb_def Let_def split: prod.splits)

lemma refresh_geo_result:
  assumes "refresh_geo up w = (r, w')"
  shows "gadmLog w' = gadmLog w @ [GADM_URL]
       \<and> scb_data w' = scb_data w \<and> scb_ts w' = scb_ts w
       \<and> metaLog w' = metaLog w \<and> dataLog w' = dataLog w
       \<and> (\<forall>g. r = Inr g \<longrightarrow> geo_data w' = Some g \<and> geo_ts w' = clock w')"
  using assms
  by (auto simp: refresh_geo_def Let_def
      split: prod.splits reply.splits option.splits if_splits)

lemma refresh_geo_success:
  assumes "gadm up (length (gadmLog w)) = (d, Response st (Some gadmGeo))" and "ok st"
    and "refresh_geo up w = (r, w')"
  shows "clock w' = clock w + int d \<and> geo_data w' = Some gadmGeo \<and> geo_ts w' = clock w'
       \<and> r = (case gadmGeo of
                None \<Rightarrow> Inl (CannotRead ''undefined'' ''length'')
              | Some features \<Rightarrow> Inr gadmGeo)"
  using assms
  by (auto simp: refresh_geo_def Let_def split: prod.splits option.splits)

lemma load_scb_cases:
  "load_scb pf up w =
     (if scb_fresh w then (Inr (the (scb_data w)), w) else refresh_scb pf up w)"
  by (auto simp: load_scb_def scb_fresh_def split: option.splits)

lemma load_geo_cases:
  "load_geo up w =
     (if geo_fresh w then (Inr (the (geo_data w)), w) else refresh_geo up w)"
  by (auto simp: load_geo_def geo_fresh_def split: option.splits)

lemma map_of_evict_new:
  assumes "map_of c k = Some e" and "time e = now"
  shows "map_of (evict now c) k = Some e"
proof -
  have "map_of (filter (\<lambda>(k, v). \<not> (now - time v > POI_CACHE_TTL)) c) k = Some e"
    using assms by (intro map_of_filter_in) (simp_all add: POI_CACHE_TTL_def)
  with assms(1) show ?thesis by (simp add: evict_def)
qed

lemma fetch_pois_result:
  assumes "fetch_pois up cat cacheKey b w = (r, w')"
  shows "overpassLog w' = overpassLog w @ [overpass_query cat b]
       \<and> (\<forall>ps. r = Ok ps \<longrightarrow>
             map_of (poiCache w') cacheKey = Some \<lparr>time = clock w', entry_data = ps\<rparr>)"
  using assms
  by (auto simp: fetch_pois_def Let_def map_of_evict_new AList.update_conv'
      split: prod.splits reply.splits option.splits if_splits)

lemma fetch_pois_success:
  assumes "up (length (overpassLog w)) = (d, Response st (Some elements))" and "ok st"
    and "fetch_pois up cat cacheKey b w = (r, w')"
  shows "r = Ok (map to_poi (case elements of None \<Rightarrow> [] | Some es \<Rightarrow> es))
       \<and> clock w' = clock w + int d"
  using assms
  by (auto simp: fetch_pois_def Let_def split: prod.splits)

lemma api_pois_cases:
  assumes "poi_category (Some c) = Some cat" and "b \<noteq> []"
  shows "api_pois up (Some c) (Some b) w =
     (if poi_fresh w (c @ '':'' @ b)
      then (Ok (entry_data (the (map_of (poiCache w) (c @ '':'' @ b)))), w)
      else fetch_pois up cat (c @ '':'' @ b) b w)"
  using assms by (auto simp: api_pois_def poi_fresh_def Let_def split: option.splits)

text \<open>
  Claim C5. For each of the three caches, a read is served from the cache exactly
  when the cache has a value and \<open>now - fetchedAt < TTL\<close> at the read: then the
  cached value is the result and the state, with its log of upstream requests, is as
  before. Otherwise the backing source is queried before the route answers (the log
  grows by the request); and when the source answers that query with a success
  that can be read, the cache holds, after the read, the value made from that
  answer, stored with the clock at which the answer had arrived, and that value is
  the result. The POI cache is read by \<open>api_pois\<close> with a category that the route
  accepts and a bounding box; its fresh value is the list of POIs made from the
  elements of the Overpass answer. The statistics cache is read by step 1 of the
  statistics route; its fresh value is the pair of mappings made from the region
  variable of the metadata answer and the rows of the data answer. The boundary cache
  is read by step 2; its fresh value is the JSON object of the answer (when that
  object has no features, it is stored all the same and the read then fails).
\<close>

theorem cache_read_iff_fresh:
  "(poi_category (Some c) = Some cat \<longrightarrow> b \<noteq> [] \<longrightarrow>
      api_pois po (Some c) (Some b) pw = (pr, pw') \<longrightarrow>
      (if poi_fresh pw (c @ '':'' @ b)
       then (\<exists>cached. map_of (poiCache pw) (c @ '':'' @ b) = Some cached
               \<and> pr = Ok (entry_data cached)) \<and> pw' = pw
       else overpassLog pw' = overpassLog pw @ [overpass_query cat b]
          \<and> (\<forall>d st elements.
                po (length (overpassLog pw)) = (d, Response st (Some elements)) \<longrightarrow> ok st \<longrightarrow>
                (let pois = map to_poi (case elements of None \<Rightarrow> [] | Some es \<Rightarrow> es)
                 in pr = Ok pois \<and> clock pw' = clock pw + int d
                  \<and> map_of (poiCache pw') (c @ '':'' @ b)
                      = Some \<lparr>time = clock pw', entry_data = pois\<rparr>))))
   \<and> (load_scb pf up sw = (sr, sw') \<longrightarrow>
      (if scb_fresh sw
       then (\<exists>cached. scb_data sw = Some cached \<and> sr = Inr cached) \<and> sw' = sw
       else metaLog sw' = metaLog sw @ [SCB_URL]
          \<and> (\<forall>d st vars regionVar d2 st2 body2 rows.
                scbMeta up (length (metaLog sw)) = (d, Response st (Some vars)) \<longrightarrow> ok st \<longrightarrow>
                find (\<lambda>v. code v = ''Region'') vars = Some regionVar \<longrightarrow>
                scbQuery up (length (dataLog sw)) = (d2, Response st2 body2) \<longrightarrow> ok st2 \<longrightarrow>
                body_rows body2 = Some rows \<longrightarrow>
                (let fresh = \<lparr>nameToKod = fst (region_maps regionVar),
                              kodToValue =
                                kod_values pf (case rows of None \<Rightarrow> [] | Some rs \<Rightarrow> rs)\<rparr>
                 in sr = Inr fresh \<and> clock sw' = clock sw + int d + int d2
                  \<and> scb_data sw' = Some fresh \<and> scb_ts sw' = clock sw'))))
   \<and> (load_geo up gw = (gr, gw') \<longrightarrow>
      (if geo_fresh gw
       then (\<exists>cached. geo_data gw = Some cached \<and> gr = Inr cached) \<and> gw' = gw
       else gadmLog gw' = gadmLog gw @ [GADM_URL]
          \<and> (\<forall>d st gadmGeo.
                gadm up (length (gadmLog gw)) = (d, Response st (Some gadmGeo)) \<longrightarrow> ok st \<longrightarrow>
                clock gw' = clock gw + int d
              \<and> geo_data gw' = Some gadmGeo \<and> geo_ts gw' = clock gw'
              \<and> gr = (case gadmGeo of
                        None \<Rightarrow> Inl (CannotRead ''undefined'' ''length'')
                      | Some features \<Rightarrow> Inr gadmGeo))))"
proof (intro conjI impI)
  assume c: "poi_category (Some c) = Some cat" and b: "b \<noteq> []"
    and a: "api_pois po (Some c) (Some b) pw = (pr, pw')"
  show "if poi_fresh pw (c @ '':'' @ b)
       then (\<exists>cached. map_of (poiCache pw) (c @ '':'' @ b) = Some cached
               \<and> pr = Ok (entry_data cached)) \<and> pw' = pw
       else overpassLog pw' = overpassLog pw @ [overpass_query cat b]
          \<and> (\<forall>d st elements.
                po (length (overpassLog pw)) = (d, Response st (Some elements)) \<longrightarrow> ok st \<longrightarrow>
                (let pois = map to_poi (case elements of None \<Rightarrow> [] | Some es \<Rightarrow> es)
                 in pr = Ok pois \<and> clock pw' = clock pw + int d
                  \<and> map_of (poiCache pw') (c @ '':'' @ b)
                      = Some \<lparr>time = clock pw', entry_data = pois\<rparr>))"
  proof (cases "poi_fresh pw (c @ '':'' @ b)")
    case True
    with a show ?thesis
      by (auto simp: api_pois_cases[OF c b] poi_fresh_def split: option.splits)
  next
    case False
    with a have f: "fetch_pois po cat (c @ '':'' @ b) b pw = (pr, pw')"
      by (simp add: api_pois_cases[OF c b])
    show ?thesis
      using False fetch_pois_result[OF f] fetch_pois_success[OF _ _ f]
      by (auto simp: Let_def)
  qed
next
  assume a: "load_scb pf up sw = (sr, sw')"
  show "if scb_fresh sw
       then (\<exists>cached. scb_data sw = Some cached \<and> sr = Inr cached) \<and> sw' = sw
       else metaLog sw' = metaLog sw @ [SCB_URL]
          \<and> (\<forall>d st vars regionVar d2 st2 body2 rows.
                scbMeta up (length (metaLog sw)) = (d, Response st (Some vars)) \<longrightarrow> ok st \<longrightarrow>
                find (\<lambda>v. code v = ''Region'') vars = Some regionVar \<longrightarrow>
                scbQuery up (length (dataLog sw)) = (d2, Response st2 body2) \<longrightarrow> ok st2 \<longrightarrow>
                body_rows body2 = Some rows \<longrightarrow>
                (let fresh = \<lparr>nameToKod = fst (region_maps regionVar),
                              kodToValue =
                                kod_values pf (case rows of None \<Rightarrow> [] | Some rs \<Rightarrow> rs)\<rparr>
                 in sr = Inr fresh \<and> clock sw' = clock sw + int d + int d2
                  \<and> scb_data sw' = Some fresh \<and> scb_ts sw' = clock sw'))"
  proof (cases "scb_fresh sw")
    case True
    with a show ?thesis by (auto simp: load_scb_cases scb_fresh_def)
  next
    case False
    with a have f: "refresh_scb pf up sw = (sr, sw')" by (simp add: load_scb_cases)
    show ?thesis
      using False refresh_scb_result[OF f] refresh_scb_success[OF _ _ _ _ _ _ f]
      by (simp add: Let_def)
  qed
next
  assume a: "load_geo up gw = (gr, gw')"
  show "if geo_fresh gw
       then (\<exists>cached. geo_data gw = Some cached \<and> gr = Inr cached) \<and> gw' = gw
       else gadmLog gw' = gadmLog gw @ [GADM_URL]
          \<and> (\<forall>d st gadmGeo.
                gadm up (length (gadmLog gw)) = (d, Response st (Some gadmGeo)) \<longrightarrow> ok st \<longrightarrow>
                clock gw' = clock gw + int d
              \<and> geo_data gw' = Some gadmGeo \<and> geo_ts gw' = clock gw'
              \<and> gr = (case gadmGeo of
                        None \<Rightarrow> Inl (CannotRead ''undefined'' ''length'')
                      | Some features \<Rightarrow> Inr gadmGeo))"
  proof (cases "geo_fresh gw")
    case True
    with a show ?thesis by (auto simp: load_geo_cases geo_fresh_def)
  next
    case False
    with a have f: "refresh_geo up gw = (gr, gw')" by (simp add: load_geo_cases)
    show ?thesis
      using False refresh_geo_result[OF f] refresh_geo_success[OF _ _ f]
      by simp
  qed
qed

theorem cache_read_iff_fresh_witness:
  "snd (api_pois overpass_one (Some ''parker'') (Some ''1,2,3,4'') (w_parks 2000)) = w_parks 2000
   \<and> snd (load_scb float_option_example stat_down
            (snd (load_scb float_option_example stat_up stat_start)))
       = snd (load_scb float_option_example stat_up stat_start)
   \<and> snd (load_geo stat_down (snd (load_geo stat_up stat_start)))
       = snd (load_geo stat_up stat_start)
   \<and> fst (api_pois overpass_one (Some ''parker'') (Some ''1,2,3,4'') (w_parks 301000))
       = Ok [\<lparr>poi_id = 7, poi_name = ''Humleg'', poi_lat = 59, poi_lon = 18,
               poi_tags = [(''name'', ''Humleg'')]\<rparr>]
   \<and> map_of (poiCache (snd (api_pois overpass_one (Some ''parker'') (Some ''1,2,3,4'')
                               (w_parks 301000))))
        ''parker:1,2,3,4''
       = Some \<lparr>time = 301025,
               entry_data = [\<lparr>poi_id = 7, poi_name = ''Humleg'', poi_lat = 59, poi_lon = 18,
                              poi_tags = [(''name'', ''Humleg'')]\<rparr>]\<rparr>
   \<and> scb_data (snd (load_scb float_option_example stat_up stat_start))
       = Some \<lparr>nameToKod = [(''malm'' @ [CHR 0xF6], ''1280''), (''Lund'', ''1281'')],
               kodToValue = [(''1280'', 157 / 2)]\<rparr>
   \<and> scb_ts (snd (load_scb float_option_example stat_up stat_start)) = 1080
   \<and> geo_data (snd (load_geo stat_up stat_start)) = Some (Some gadm_example)
   \<and> geo_ts (snd (load_geo stat_up stat_start)) = 1200"
proof -
  let ?c = "''parker''" and ?b = "''1,2,3,4''" and ?cat = "(''leisure'', ''park'')"
  let ?P = "\<lambda>w. api_pois overpass_one (Some ?c) (Some ?b) w"
  let ?S = "\<lambda>up w. load_scb float_option_example up w"
  let ?s1 = "snd (?S stat_up stat_start)" and ?g1 = "snd (load_geo stat_up stat_start)"
  let ?p2 = "snd (?P (w_parks 301000))"
  let ?el = "\<lparr>el_id = 7, el_lat = 59, el_lon = 18, el_tags = Some [(''name'', ''Humleg'')]\<rparr>"
  let ?poi = "\<lparr>poi_id = 7, poi_name = ''Humleg'', poi_lat = 59, poi_lon = 18,
               poi_tags = [(''name'', ''Humleg'')]\<rparr>"
  let ?var = "\<lparr>code = ''Region'', var_values = [''00'', ''1280'', ''1281''],
                valueTexts = [''Riket'', ''malm'' @ [CHR 0xF6], ''Lund'']\<rparr>"
  let ?body = "\<lparr>body_text = [],
                 body_rows = Some (Some [\<lparr>key = [''1280''], row_values = [''78.5'']\<rparr>,
                                         \<lparr>key = [''1281''], row_values = [''..'']\<rparr>])\<rparr>"
  let ?rows = "Some [\<lparr>key = [''1280''], row_values = [''78.5'']\<rparr>,
                     \<lparr>key = [''1281''], row_values = [''..'']\<rparr>]"
  have cat: "poi_category (Some ?c) = Some ?cat" by code_simp
  have b: "?b \<noteq> []" by simp
  have key: "?c @ '':'' @ ?b = ''parker:1,2,3,4''" by simp
  have pf: "poi_fresh (w_parks 2000) (?c @ '':'' @ ?b)"
    and pn: "\<not> poi_fresh (w_parks 301000) (?c @ '':'' @ ?b)"
    and sf: "scb_fresh ?s1" and sn: "\<not> scb_fresh stat_start"
    and gf: "geo_fresh ?g1" and gn: "\<not> geo_fresh stat_start"
    by code_simp+
  note stale = cache_read_iff_fresh[where c = ?c and cat = ?cat and b = ?b and po = overpass_one
      and pw = "w_parks 301000" and pr = "fst (?P (w_parks 301000))" and pw' = ?p2
      and pf = float_option_example and up = stat_up
      and sw = stat_start and sr = "fst (?S stat_up stat_start)" and sw' = ?s1
      and gw = stat_start and gr = "fst (load_geo stat_up stat_start)" and gw' = ?g1]
  note fresh = cache_read_iff_fresh[where c = ?c and cat = ?cat and b = ?b and po = overpass_one
      and pw = "w_parks 2000" and pr = "fst (?P (w_parks 2000))"
      and pw' = "snd (?P (w_parks 2000))"
      and pf = float_option_example and up = stat_down
      and sw = ?s1 and sr = "fst (?S stat_down ?s1)" and sw' = "snd (?S stat_down ?s1)"
      and gw = ?g1 and gr = "fst (load_geo stat_down ?g1)" and gw' = "snd (load_geo stat_down ?g1)"]
  note f1 = fresh[THEN conjunct1, rule_format, OF cat b surjective_pairing,
      unfolded if_P[OF pf], THEN conjunct2]
  note f2 = fresh[THEN conjunct2, THEN conjunct1, rule_format, OF surjective_pairing,
      unfolded if_P[OF sf], THEN conjunct2]
  note f3 = fresh[THEN conjunct2, THEN conjunct2, rule_format, OF surjective_pairing,
      unfolded if_P[OF gf], THEN conjunct2]
  have r1: "overpass_one (length (overpassLog (w_parks 301000)))
      = (25, Response 200 (Some (Some [?el])))" by code_simp
  have r2: "scbMeta stat_up (length (metaLog stat_start)) = (30, Response 200 (Some [?var]))"
    "find (\<lambda>v. code v = ''Region'') [?var] = Some ?var"
    "scbQuery stat_up (length (dataLog stat_start)) = (50, Response 200 ?body)"
    "body_rows ?body = Some ?rows"
    by code_simp+
  have r3: "gadm stat_up (length (gadmLog stat_start)) = (200, Response 200 (Some (Some gadm_example)))"
    by code_simp
  have k: "ok 200" by (simp add: ok_def)
  note s1 = stale[THEN conjunct1, rule_format, OF cat b surjective_pairing,
      unfolded if_not_P[OF pn], THEN conjunct2, rule_format, OF r1 k, unfolded Let_def]
  note s2 = stale[THEN conjunct2, THEN conjunct1, rule_format, OF surjective_pairing,
      unfolded if_not_P[OF sn], THEN conjunct2, rule_format, OF r2(1) k r2(2) r2(3) k r2(4),
      unfolded Let_def]
  note s3 = stale[THEN conjunct2, THEN conjunct2, rule_format, OF surjective_pairing,
      unfolded if_not_P[OF gn], THEN conjunct2, rule_format, OF r3 k]
  have e1: "map to_poi (case Some [?el] of None \<Rightarrow> [] | Some es \<Rightarrow> es) = [?poi]"
    by code_simp
  have e2: "clock (w_parks 301000) + int 25 = 301025" by code_simp
  have e3: "\<lparr>nameToKod = fst (region_maps ?var),
            kodToValue = kod_values float_option_example
              (case ?rows of None \<Rightarrow> [] | Some rs \<Rightarrow> rs)\<rparr>
      = \<lparr>nameToKod = [(''malm'' @ [CHR 0xF6], ''1280''), (''Lund'', ''1281'')],
         kodToValue = [(''1280'', 157 / 2)]\<rparr>"
    by code_simp
  have e4: "clock stat_start + int 30 + int 50 = 1080" "clock stat_start + int 200 = 1200"
    by code_simp+
  have a4: "fst (?P (w_parks 301000)) = Ok [?poi]"
    using s1[THEN conjunct1] unfolding e1 .
  have ck: "clock ?p2 = 301025"
    using s1[THEN conjunct2, THEN conjunct1] unfolding e2 .
  have a5: "map_of (poiCache ?p2) ''parker:1,2,3,4'' = Some \<lparr>time = 301025, entry_data = [?poi]\<rparr>"
    using s1[THEN conjunct2, THEN conjunct2] unfolding e1 ck key .
  have cs: "clock ?s1 = 1080"
    using s2[THEN conjunct2, THEN conjunct1] unfolding e4 .
  have a6: "scb_data ?s1 = Some \<lparr>nameToKod = [(''malm'' @ [CHR 0xF6], ''1280''), (''Lund'', ''1281'')],
         kodToValue = [(''1280'', 157 / 2)]\<rparr>"
    using s2[THEN conjunct2, THEN conjunct2, THEN conjunct1] unfolding e3 .
  have a7: "scb_ts ?s1 = 1080"
    using s2[THEN conjunct2, THEN conjunct2, THEN conjunct2] unfolding cs .
  have cg: "clock ?g1 = 1200"
    using s3[THEN conjunct1] unfolding e4 .
  have a8: "geo_data ?g1 = Some (Some gadm_example)"
    using s3[THEN conjunct2, THEN conjunct1] .
  have a9: "geo_ts ?g1 = 1200"
    using s3[THEN conjunct2, THEN conjunct2, THEN conjunct1] unfolding cg .
  show ?thesis
    apply (intro conjI)
            apply (rule f1)
           apply (rule f2)
          apply (rule f3)
         apply (rule a4)
        apply (rule a5)
       apply (rule a6)
      apply (rule a7)
     apply (rule a8)
    apply (rule a9)
    done
qed

subsection \<open>Chat orchestrator\<close>




lemma promise_all_Inr:
  "promise_all (map Inr xs) = Inr xs"
  by (induction xs) auto

lemma promise_all_Inl:
  assumes "Inl e \<in> set rs" and "\<forall>r \<in> set rs. \<forall>e'. r = Inl e' \<longrightarrow> e' = e"
  shows "promise_all rs = Inl e"
  using assms
proof (induction rs)
  case Nil
  then show ?case by simp
next
  case (Cons r rs)
  show ?case
  proof (cases r)
    case (Inl e')
    have "r \<in> set (r # rs)" by simp
    with Cons.prems(2) Inl have "e' = e" by blast
    with Inl show ?thesis by simp
  next
    case (Inr x)
    from Cons.prems(1) Inr have 1: "Inl e \<in> set rs" by auto
    from Cons.prems(2) have 2: "\<forall>r \<in> set rs. \<forall>e'. r = Inl e' \<longrightarrow> e' = e" by auto
    from 1 2 have "promise_all rs = Inl e" by (rule Cons.IH)
    with Inr show ?thesis by simp
  qed
qed

lemma geocode_place:
  "geocode parseFloat r (Some p) =
     Inr (case r of
            Response s (Some (m # ms)) \<Rightarrow>
              p\<lparr>lat := parseFloat (m_lat m), lon := parseFloat (m_lon m)\<rparr>
          | _ \<Rightarrow> p)"
  by (simp add: geocode_def split: reply.splits option.splits list.splits)

lemma geocode_Inl:
  "geocode parseFloat r element = Inl e \<longleftrightarrow> element = None \<and> e = CannotRead ''null'' ''name''"
proof (cases element)
  case None
  then show ?thesis by (auto simp: geocode_def)
next
  case (Some p)
  then show ?thesis by (simp add: geocode_place)
qed

lemma correct_places_objects:
  "correct_places parseFloat nom (map Some ps) =
     Inr (map (\<lambda>(i, p). case nom i of
                 Response s (Some (m # ms)) \<Rightarrow>
                   p\<lparr>lat := parseFloat (m_lat m), lon := parseFloat (m_lon m)\<rparr>
               | _ \<Rightarrow> p) (zip [0..<length ps] ps))"
proof -
  have "map (\<lambda>(i, element). geocode parseFloat (nom i) element) (zip [0..<length ps] (map Some ps))
      = map Inr (map (\<lambda>(i, p). case nom i of
                 Response s (Some (m # ms)) \<Rightarrow>
                   p\<lparr>lat := parseFloat (m_lat m), lon := parseFloat (m_lon m)\<rparr>
               | _ \<Rightarrow> p) (zip [0..<length ps] ps))"
    by (simp add: zip_map2 geocode_place split_def)
  then show ?thesis
    by (simp add: correct_places_def promise_all_Inr del: map_map)
qed

lemma correct_places_null:
  assumes "None \<in> set ps"
  shows "correct_places parseFloat nom ps = Inl (CannotRead ''null'' ''name'')"
proof -
  let ?rs = "map (\<lambda>(i, element). geocode parseFloat (nom i) element) (zip [0..<length ps] ps)"
  from assms obtain j where j: "j < length ps" "ps ! j = None"
    by (auto simp: in_set_conv_nth)
  then have "?rs ! j = Inl (CannotRead ''null'' ''name'')"
    by (simp add: geocode_def)
  with j(1) have "Inl (CannotRead ''null'' ''name'') \<in> set ?rs"
    by (metis (no_types, lifting) length_map length_zip length_upt min.idem diff_zero nth_mem)
  moreover have "\<forall>r \<in> set ?rs. \<forall>e'. r = Inl e' \<longrightarrow> e' = CannotRead ''null'' ''name''"
    by (auto simp: geocode_Inl)
  ultimately show ?thesis
    unfolding correct_places_def by (rule promise_all_Inl)
qed



text \<open>
  The route on a reply whose array has place objects only: the answer is a success,
  whatever the geocoder does; its place list is as long as the array, and at each
  position it has the place of that position, with the coordinates of the
  geocoder's first match when the lookup for that position returned a list with at
  least one match (the status of that reply is not read), and unchanged otherwise.
\<close>

lemma chat_geocoding_objects:
  assumes "message \<noteq> None" and "message \<noteq> Some []"
    and "apiKey \<noteq> None" and "apiKey \<noteq> Some []"
    and "apiKey \<noteq> Some ''your-openrouter-api-key-here''"
    and "openrouter up = Response st (Some content)" and "ok st"
    and "parse_reply JSON_parse (case content of None \<Rightarrow> [] | Some s \<Rightarrow> s)
           = (shown, map Some extracted)"
  shows "\<exists>corrected.
           api_chat parseFloat JSON_parse up apiKey message
             = Ok \<lparr>reply_text = shown, places = corrected\<rparr>
         \<and> length corrected = length extracted
         \<and> (\<forall>i < length extracted.
               corrected ! i =
                 (case nominatim up i of
                    Response s (Some (m # ms)) \<Rightarrow>
                      (extracted ! i)\<lparr>lat := parseFloat (m_lat m), lon := parseFloat (m_lon m)\<rparr>
                  | _ \<Rightarrow> extracted ! i))"
proof (cases "extracted = []")
  case True
  with assms show ?thesis by (simp add: api_chat_def)
next
  case False
  with assms show ?thesis
    by (simp add: api_chat_def correct_places_objects)
qed

text \<open>The route on a reply whose array has an element \<^verbatim>\<open>null\<close>: the answer is the
  500 of the \<^verbatim>\<open>catch\<close> of the route, whatever the other elements are.\<close>

lemma chat_null_element:
  assumes "message \<noteq> None" and "message \<noteq> Some []"
    and "apiKey \<noteq> None" and "apiKey \<noteq> Some []"
    and "apiKey \<noteq> Some ''your-openrouter-api-key-here''"
    and "openrouter up = Response st (Some content)" and "ok st"
    and "parse_reply JSON_parse (case content of None \<Rightarrow> [] | Some s \<Rightarrow> s) = (shown, extracted)"
    and "None \<in> set extracted"
  shows "api_chat parseFloat JSON_parse up apiKey message = Caught (CannotRead ''null'' ''name'')"
proof -
  from assms(9) have "extracted \<noteq> []" by auto
  with assms show ?thesis
    by (simp add: api_chat_def correct_places_null)
qed

text \<open>
  Claim C4. For every place of the model's reply, the answer should have at its
  position the place with the geocoder's coordinates or with its own, and a lookup
  that fails should never fail the batch. The callback catches what the lookup
  throws, but its \<^verbatim>\<open>catch\<close> block reads \<^verbatim>\<open>place.name\<close> for the log line: for an
  element \<^verbatim>\<open>null\<close> of the array that read throws again, \<^verbatim>\<open>Promise.all\<close>
  rejects and the route answers 500. With a geocoder that finds the first place: a
  reply whose block is the array of one place is answered with that place at the
  geocoder's coordinates; a reply whose block is the array of the same place and
  \<^verbatim>\<open>null\<close> is answered with the error, and the place is not returned.
\<close>

theorem chat_null_place_fails:
  "parse_reply parse_example reply_one = (''Se:'', [Some place_A])
   \<and> api_chat float_example parse_example (chat_up reply_one) (Some ''sk-1'') (Some ''Var?'')
       = Ok \<lparr>reply_text = ''Se:'',
             places = [\<lparr>name = ''A'', lat = 593 / 10, lon = 181 / 10, description = ''a''\<rparr>]\<rparr>
   \<and> parse_reply parse_example reply_null = (''Se:'', [Some place_A, None])
   \<and> api_chat float_example parse_example (chat_up reply_null) (Some ''sk-1'') (Some ''Var?'')
       = Caught (CannotRead ''null'' ''name'')"
proof -
  have o: "openrouter (chat_up content) = Response 200 (Some (Some content))" for content
    by (simp add: chat_up_def)
  have p1: "parse_reply parse_example reply_one = (''Se:'', [Some place_A])"
    and p2: "parse_reply parse_example reply_null = (''Se:'', [Some place_A, None])"
    by code_simp+
  have c1: "correct_places float_example (nominatim (chat_up reply_one)) [Some place_A]
      = Inr [\<lparr>name = ''A'', lat = 593 / 10, lon = 181 / 10, description = ''a''\<rparr>]"
    and c2: "correct_places float_example (nominatim (chat_up reply_null)) [Some place_A, None]
      = Inl (CannotRead ''null'' ''name'')"
    by code_simp+
  show ?thesis
    by (simp add: api_chat_def o ok_def p1 p2 c1 c2)
qed

subsection \<open>Statistics merge\<close>

lemma map_of_find: "map_of xs a = map_option snd (find (\<lambda>(n, k). n = a) xs)"
  by (induction xs) auto

lemma find_app:
  "find P (xs @ ys) = (case find P xs of None \<Rightarrow> find P ys | Some x \<Rightarrow> Some x)"
  by (induction xs) auto

lemma map_of_js_set:
  "map_of (js_set k v m) l =
     (if k = ''__proto__'' then map_of m l else if l = k then Some v else map_of m l)"
  by (simp add: js_set_def AList.update_conv')

lemma map_of_fold_lower:
  assumes "l \<noteq> ''__proto__''"
  shows "map_of (fold (\<lambda>(name, kod) m. js_set (toLowerCase name) kod m) xs m0) l =
     (case find (\<lambda>(n, k). toLowerCase n = l) (rev xs) of
        Some (n, k) \<Rightarrow> Some k
      | None \<Rightarrow> map_of m0 l)"
proof (induction xs arbitrary: m0)
  case Nil
  then show ?case by simp
next
  case (Cons x xs)
  obtain n k where x: "x = (n, k)" by (cases x)
  show ?case
    using assms
    by (auto simp: x Cons.IH find_app map_of_js_set split: option.splits)
qed

lemma map_of_nameLower:
  "toLowerCase name2 \<noteq> ''__proto__'' \<Longrightarrow>
     map_of (nameLower_of n2k) (toLowerCase name2) = case_insensitive_match n2k name2"
  by (simp add: nameLower_of_def case_insensitive_match_def map_of_fold_lower
      split: option.splits)

lemma is_kod_nonempty: "is_kod k \<Longrightarrow> k \<noteq> []"
  by (auto simp: is_kod_def)

lemma is_kod_own: "is_kod k \<Longrightarrow> k \<notin> set object_prototype"
  by (auto simp: is_kod_def object_prototype_def)

lemma find_codes_ok:
  "list_all (\<lambda>(n, k). is_kod k) xs \<Longrightarrow> find P xs = Some (n, k) \<Longrightarrow> is_kod k"
  by (induction xs) (auto split: if_splits)

lemma exact_match_kod:
  "codes_ok s \<Longrightarrow> exact_match (nameToKod s) name2 = Some k \<Longrightarrow> is_kod k"
  using find_codes_ok[of "nameToKod s"]
  by (fastforce simp: exact_match_def codes_ok_def)

lemma case_insensitive_match_kod:
  assumes "codes_ok s" and "case_insensitive_match (nameToKod s) name2 = Some k"
  shows "is_kod k"
proof -
  have "list_all (\<lambda>(n, k). is_kod k) (rev (nameToKod s))"
    using assms(1) by (simp add: codes_ok_def list_all_iff)
  then show ?thesis
    using assms(2) find_codes_ok[of "rev (nameToKod s)"]
    by (fastforce simp: case_insensitive_match_def)
qed

lemma js_get_own_name:
  "k \<notin> set object_prototype \<Longrightarrow>
     js_get obj k = (case map_of obj k of None \<Rightarrow> Missing | Some v \<Rightarrow> Own v)"
  by (simp add: js_get_def split: option.splits)

lemma resolve_kod_spec:
  assumes "codes_ok s"
    and "name2 \<notin> set object_prototype" and "toLowerCase name2 \<notin> set object_prototype"
  shows "resolve_kod (nameToKod s) (nameLower_of (nameToKod s)) name2 =
     (case exact_match (nameToKod s) name2 of
        Some k \<Rightarrow> Own k
      | None \<Rightarrow> (case case_insensitive_match (nameToKod s) name2 of
                  Some k \<Rightarrow> Own k
                | None \<Rightarrow> Missing))"
proof -
  have p: "toLowerCase name2 \<noteq> ''__proto__''"
    using assms(3) by (auto simp: object_prototype_def)
  have e: "js_get (nameToKod s) name2 =
      (case exact_match (nameToKod s) name2 of None \<Rightarrow> Missing | Some k \<Rightarrow> Own k)"
    by (simp add: js_get_own_name[OF assms(2)] exact_match_def map_of_find)
  have c: "js_get (nameLower_of (nameToKod s)) (toLowerCase name2) =
      (case case_insensitive_match (nameToKod s) name2 of None \<Rightarrow> Missing | Some k \<Rightarrow> Own k)"
    by (simp add: js_get_own_name[OF assms(3)] map_of_nameLower[OF p])
  show ?thesis
    using exact_match_kod[OF assms(1), of name2]
      case_insensitive_match_kod[OF assms(1), of name2] is_kod_nonempty
    by (auto simp: resolve_kod_def e c truthy_def split: option.splits)
qed

lemma js_set_values:
  "list_all (\<lambda>(n, k). P k) al \<Longrightarrow> P v \<Longrightarrow> list_all (\<lambda>(n, k). P k) (js_set a v al)"
  unfolding js_set_def by (induction al) auto

lemma region_maps_fold_ok:
  "list_all (\<lambda>(n, k). is_kod k) m \<Longrightarrow>
   list_all (\<lambda>(n, k). is_kod k)
     (fst (fold (\<lambda>(i, kod) (n2k, codes).
             if is_kod kod
             then (js_set (js_nth vt i) kod n2k, codes @ [kod])
             else (n2k, codes)) xs (m, cs)))"
proof (induction xs arbitrary: m cs)
  case Nil
  then show ?case by simp
next
  case (Cons x xs)
  obtain i kod where x: "x = (i, kod)" by (cases x)
  show ?case
    using Cons.prems by (auto simp: x intro!: Cons.IH js_set_values)
qed

lemma region_maps_codes_ok:
  "region_maps regionVar = (n2k, codes) \<Longrightarrow> list_all (\<lambda>(n, k). is_kod k) n2k"
  using region_maps_fold_ok[of "[]" "valueTexts regionVar"
      "zip [0..<length (var_values regionVar)] (var_values regionVar)" "[]"]
  by (simp add: region_maps_def)

text \<open>Every mapping that a refresh stores has codes of four digits.\<close>

lemma refresh_scb_codes_ok:
  "refresh_scb pf up w = (Inr s, w') \<Longrightarrow> codes_ok s"
  by (auto simp: refresh_scb_def Let_def codes_ok_def region_maps_codes_ok
      split: prod.splits reply.splits option.splits if_splits)

lemma merge_fst:
  "fst (merge s gadmGeo) =
     map (\<lambda>f. fst (merge_feature s (nameLower_of (nameToKod s)) f))
       (filter is_municipality gadmGeo)"
  by (simp add: merge_def Let_def comp_def)

lemma filter_update_other:
  "k \<in> K \<Longrightarrow> filter (\<lambda>p. fst p \<notin> K) (AList.update k v al) = filter (\<lambda>p. fst p \<notin> K) al"
  by (induction al) auto

lemma load_scb_cached:
  "load_scb pf up w = (Inr s, w') \<Longrightarrow>
     scb_data w' = Some s \<and> geo_data w' = geo_data w \<and> geo_ts w' = geo_ts w"
  using refresh_scb_result[of pf up w "Inr s" w']
  by (auto simp: load_scb_cases scb_fresh_def split: if_splits)

lemma load_geo_cached:
  "load_geo up w = (Inr g, w') \<Longrightarrow>
     geo_data w' = Some g \<and> scb_data w' = scb_data w \<and> scb_ts w' = scb_ts w"
  using refresh_geo_result[of up w "Inr g" w']
  by (auto simp: load_geo_cases geo_fresh_def split: if_splits)

text \<open>
  The merge on the names that are not names of members of \<^verbatim>\<open>Object.prototype\<close>
  (neither as they are nor in lower case), with a mapping whose codes have four
  digits: the output has one feature for each boundary feature of the municipality
  level, in the same order; such a feature has as \<^verbatim>\<open>kod\<close> the exact match of its
  name when there is one, else the case-insensitive match when there is one, else
  \<^verbatim>\<open>null\<close>, and as \<^verbatim>\<open>sysselsattning\<close> the value of that code, or \<^verbatim>\<open>null\<close>.
\<close>

lemma merge_resolves_own_names:
  assumes "codes_ok s"
  shows "let ms = filter is_municipality (gadmGeo :: (string, 'a, 'b) feature_scheme list);
             out = fst (merge s gadmGeo)
         in length out = length ms
          \<and> (\<forall>i < length ms.
               let name2 = (case map_of (properties (ms ! i)) ''NAME_2'' of
                              None \<Rightarrow> []
                            | Some n \<Rightarrow> n);
                   kod = (case exact_match (nameToKod s) name2 of
                            Some k \<Rightarrow> Some k
                          | None \<Rightarrow> case_insensitive_match (nameToKod s) name2)
               in name2 \<notin> set object_prototype \<longrightarrow>
                  toLowerCase name2 \<notin> set object_prototype \<longrightarrow>
                  map_of (properties (out ! i)) ''kod''
                    = Some (case kod of None \<Rightarrow> PNull | Some k \<Rightarrow> PStr k)
                \<and> map_of (properties (out ! i)) ''sysselsattning''
                    = Some (case kod of
                              None \<Rightarrow> PNull
                            | Some k \<Rightarrow> (case map_of (kodToValue s) k of
                                          None \<Rightarrow> PNull
                                        | Some x \<Rightarrow> PNum x)))"
proof -
  have one: "map_of (properties (fst (merge_feature s (nameLower_of (nameToKod s)) f))) ''kod''
          = Some (case kod of None \<Rightarrow> PNull | Some k \<Rightarrow> PStr k)
      \<and> map_of (properties (fst (merge_feature s (nameLower_of (nameToKod s)) f)))
            ''sysselsattning''
          = Some (case kod of
                    None \<Rightarrow> PNull
                  | Some k \<Rightarrow> (case map_of (kodToValue s) k of
                                None \<Rightarrow> PNull
                              | Some x \<Rightarrow> PNum x))"
    if n: "name2 = (case map_of (properties f) ''NAME_2'' of None \<Rightarrow> [] | Some n \<Rightarrow> n)"
      and k: "kod = (case exact_match (nameToKod s) name2 of
                       Some k \<Rightarrow> Some k
                     | None \<Rightarrow> case_insensitive_match (nameToKod s) name2)"
      and o: "name2 \<notin> set object_prototype" "toLowerCase name2 \<notin> set object_prototype"
    for f :: "(string, 'a, 'b) feature_scheme" and name2 kod
  proof -
    have r: "resolve_kod (nameToKod s) (nameLower_of (nameToKod s)) name2
        = (case kod of None \<Rightarrow> Missing | Some k \<Rightarrow> Own k)"
      unfolding resolve_kod_spec[OF assms o] k by (simp split: option.splits)
    have "is_kod c" if "kod = Some c" for c
      using that exact_match_kod[OF assms, of name2 c]
        case_insensitive_match_kod[OF assms, of name2 c]
      unfolding k by (simp split: option.splits)
    then have v: "value_of_kod (kodToValue s) (case kod of None \<Rightarrow> Missing | Some k \<Rightarrow> Own k)
        = (case kod of
             None \<Rightarrow> Missing
           | Some k \<Rightarrow> (case map_of (kodToValue s) k of None \<Rightarrow> Missing | Some x \<Rightarrow> Own x))"
      by (cases kod) (simp_all add: value_of_kod_def js_get_own_name is_kod_own)
    show ?thesis
      unfolding merge_feature_def Let_def n[symmetric] r v
      by (cases kod) (simp_all add: AList.update_conv' split: option.splits)
  qed
  show ?thesis
    unfolding Let_def merge_fst by (simp add: one[OF refl refl])
qed

text \<open>
  Claim C2. Every municipality feature should get as code the exact match of its
  name, else the case-insensitive match, and a feature whose name matches neither
  way should be in the output with code \<^verbatim>\<open>null\<close> and value \<^verbatim>\<open>null\<close>. The two
  mappings are plain objects, and \<^verbatim>\<open>nameToKod[name2]\<close> also finds the members of
  \<^verbatim>\<open>Object.prototype\<close>. With the example statistics, which know neither name: the
  municipality \<^verbatim>\<open>Atlantis\<close> gets code and value \<^verbatim>\<open>null\<close> and is listed as
  unmatched; the municipality \<^verbatim>\<open>constructor\<close> gets as code the function
  \<^verbatim>\<open>Object\<close>, which the JSON of the response leaves out, and is not listed as
  unmatched.
\<close>

theorem merge_inherited_name:
  "exact_match (nameToKod scb_example) ''constructor'' = None
   \<and> case_insensitive_match (nameToKod scb_example) ''constructor'' = None
   \<and> merge scb_example gadm_inherited
       = ([\<lparr>properties = [(''NAME_2'', PStr ''Atlantis''), (''ENGTYPE_2'', PStr ''Municipality''),
                           (''kod'', PNull), (''sysselsattning'', PNull)],
             geometry = ''polygon-c''\<rparr>,
           \<lparr>properties = [(''NAME_2'', PStr ''constructor''),
                           (''ENGTYPE_2'', PStr ''Municipality''),
                           (''kod'', PInherited ''constructor''), (''sysselsattning'', PNull)],
             geometry = ''polygon-e''\<rparr>],
          [''Atlantis''])"
  by code_simp

text \<open>
  Claim C10. Each feature of the merged output keeps the geometry and the other
  members of the boundary feature it comes from. Its properties other than
  \<^verbatim>\<open>kod\<close> and \<^verbatim>\<open>sysselsattning\<close> are those of the boundary feature, with the same
  values and in the same order; its keys are those of the boundary feature and
  these two, which are set whether the boundary feature had them or not.
\<close>

theorem merge_frame:
  "let ms = filter is_municipality gadmGeo; out = fst (merge s gadmGeo)
   in length out = length ms
    \<and> (\<forall>i < length ms.
         geometry (out ! i) = geometry (ms ! i)
       \<and> feature.more (out ! i) = feature.more (ms ! i)
       \<and> filter (\<lambda>p. fst p \<notin> {''kod'', ''sysselsattning''}) (properties (out ! i))
           = map (\<lambda>(k, v). (k, PStr v))
               (filter (\<lambda>p. fst p \<notin> {''kod'', ''sysselsattning''}) (properties (ms ! i)))
       \<and> (\<forall>k. k \<noteq> ''kod'' \<longrightarrow> k \<noteq> ''sysselsattning'' \<longrightarrow>
              map_of (properties (out ! i)) k = map_option PStr (map_of (properties (ms ! i)) k))
       \<and> fst ` set (properties (out ! i))
           = fst ` set (properties (ms ! i)) \<union> {''kod'', ''sysselsattning''})"
proof -
  have f: "filter (\<lambda>p. fst p \<notin> {''kod'', ''sysselsattning''})
             (AList.update ''sysselsattning'' a (AList.update ''kod'' b al))
      = filter (\<lambda>p. fst p \<notin> {''kod'', ''sysselsattning''}) al" for a b :: pval and al
    by (subst filter_update_other, simp, subst filter_update_other, simp, rule refl)
  have m: "filter (\<lambda>p. fst p \<notin> {''kod'', ''sysselsattning''}) (map (\<lambda>(k, v). (k, PStr v)) ps)
      = map (\<lambda>(k, v). (k, PStr v)) (filter (\<lambda>p. fst p \<notin> {''kod'', ''sysselsattning''}) ps)"
    for ps
    by (induction ps) auto
  have i: "fst ` (\<lambda>(k, v). (k, PStr v)) ` A = fst ` A" for A :: "(string \<times> string) set"
    by force
  show ?thesis
    unfolding Let_def merge_fst
    by (auto simp add: merge_feature_def Let_def f m AList.update_conv' map_of_map
          AList.dom_update i
        simp del: insert_iff)
qed

theorem merge_frame_witness:
  "1 < length (filter is_municipality gadm_example)
   \<and> filter is_municipality gadm_example ! 1
       = \<lparr>properties = [(''kod'', ''old''), (''NAME_2'', ''Atlantis''),
                        (''ENGTYPE_2'', ''Municipality'')],
          geometry = ''polygon-c''\<rparr>
   \<and> geometry (fst (merge scb_example gadm_example) ! 1) = ''polygon-c''
   \<and> filter (\<lambda>p. fst p \<notin> {''kod'', ''sysselsattning''})
        (properties (fst (merge scb_example gadm_example) ! 1))
       = [(''NAME_2'', PStr ''Atlantis''), (''ENGTYPE_2'', PStr ''Municipality'')]
   \<and> fst ` set (properties (fst (merge scb_example gadm_example) ! 1))
       = {''kod'', ''NAME_2'', ''ENGTYPE_2'', ''sysselsattning''}"
proof -
  let ?ms = "filter is_municipality gadm_example"
  let ?out = "fst (merge scb_example gadm_example)"
  have l: "1 < length ?ms" by code_simp
  have f: "?ms ! 1 = \<lparr>properties = [(''kod'', ''old''), (''NAME_2'', ''Atlantis''),
                        (''ENGTYPE_2'', ''Municipality'')],
          geometry = ''polygon-c''\<rparr>" by code_simp
  note at1 = merge_frame[of gadm_example scb_example, unfolded Let_def,
      THEN conjunct2, rule_format, OF l]
  have e1: "geometry (?ms ! 1) = ''polygon-c''"
    by code_simp
  have e2: "map (\<lambda>(k, v). (k, PStr v))
               (filter (\<lambda>p. fst p \<notin> {''kod'', ''sysselsattning''}) (properties (?ms ! 1)))
      = [(''NAME_2'', PStr ''Atlantis''), (''ENGTYPE_2'', PStr ''Municipality'')]"
    by code_simp
  have e3: "fst ` set (properties (?ms ! 1)) \<union> {''kod'', ''sysselsattning''}
      = {''kod'', ''NAME_2'', ''ENGTYPE_2'', ''sysselsattning''}"
    unfolding f by auto
  note g = at1[THEN conjunct1, unfolded e1]
  note p = at1[THEN conjunct2, THEN conjunct2, THEN conjunct1, unfolded e2]
  note k = at1[THEN conjunct2, THEN conjunct2, THEN conjunct2, THEN conjunct2, unfolded e3]
  show ?thesis
    apply (intro conjI)
        apply (rule l)
       apply (rule f)
      apply (rule g)
     apply (rule p)
    apply (rule k)
    done
qed

text \<open>
  A repeated request after one that answered with a collection: from a state with
  the two caches as the first request left them, at a clock for which both TTLs are
  unexpired, the second request answers with the same collection and leaves the
  state as it found it, whatever the upstream services would have answered.
\<close>

lemma repeat_after_ok:
  assumes "api_kommuner_sysselsattning pf up w = (Ok out, w1)"
    and "scb_data w2 = scb_data w1" and "scb_ts w2 = scb_ts w1"
    and "geo_data w2 = geo_data w1" and "geo_ts w2 = geo_ts w1"
    and "clock w2 - scb_ts w1 < SCB_TTL" and "clock w2 - geo_ts w1 < GEO_TTL"
  shows "api_kommuner_sysselsattning pf' up' w2 = (Ok out, w2)"
proof -
  from assms(1) obtain s wa g where
    l1: "load_scb pf up w = (Inr s, wa)" and l2: "load_geo up wa = (Inr (Some g), w1)"
    and out: "out = FeatureCollection (fst (merge s g))"
    by (auto simp: api_kommuner_sysselsattning_def split: prod.splits sum.splits option.splits)
  have "scb_data w1 = Some s" "geo_data w1 = Some (Some g)"
    using load_scb_cached[OF l1] load_geo_cached[OF l2] by simp_all
  then have "load_scb pf' up' w2 = (Inr s, w2)" "load_geo up' w2 = (Inr (Some g), w2)"
    using assms(2-7) by (simp_all add: load_scb_def load_geo_def)
  then show ?thesis
    by (simp add: api_kommuner_sysselsattning_def out)
qed

text \<open>
  Claim C9. Two requests to the statistics route, the second while both TTLs are
  unexpired, should give the same output, the second without an upstream call. The
  refresh of the boundaries stores the parsed body in \<^verbatim>\<open>geoCache\<close> before it reads
  its member \<^verbatim>\<open>features\<close>. On a server that has just started, with a boundary
  source that answers 200 with a JSON object without \<^verbatim>\<open>features\<close>: the first
  request stores that object and answers 500 with the error of reading
  \<^verbatim>\<open>length\<close>; one second later both caches are fresh, and a second request,
  with services that now answer well, makes no upstream call (the state and its
  logs are unchanged) and answers 500 with the error of reading \<^verbatim>\<open>filter\<close>: the
  two outputs differ.
\<close>

theorem poisoned_boundary_cache:
  "fst (api_kommuner_sysselsattning float_option_example stat_poison stat_start)
     = Caught (CannotRead ''undefined'' ''length'')
   \<and> geo_data (snd (api_kommuner_sysselsattning float_option_example stat_poison stat_start))
       = Some None
   \<and> scb_fresh (snd (api_kommuner_sysselsattning float_option_example stat_poison stat_start)
                  \<lparr>clock := 2280\<rparr>)
   \<and> geo_fresh (snd (api_kommuner_sysselsattning float_option_example stat_poison stat_start)
                  \<lparr>clock := 2280\<rparr>)
   \<and> api_kommuner_sysselsattning float_option_example stat_up
        (snd (api_kommuner_sysselsattning float_option_example stat_poison stat_start)
           \<lparr>clock := 2280\<rparr>)
      = (Caught (CannotRead ''undefined'' ''filter''),
         snd (api_kommuner_sysselsattning float_option_example stat_poison stat_start)
           \<lparr>clock := 2280\<rparr>)"
  by code_simp

end
